theory Spec2Isabelle
  imports Main
begin

section \<open>The request-rule runner of rulesets-base\<close>

text \<open>
  A shallow embedding of \<^verbatim>\<open>getRequestRules\<close>, \<^verbatim>\<open>createRequestBodyResult\<close>,
  \<^verbatim>\<open>createRequestPropertyResult\<close> and \<^verbatim>\<open>runRequestRules\<close> (the request part of the
  rule runner) and of \<^verbatim>\<open>generateRuleRunner\<close> (the command-line side that resolves
  rulesets). JavaScript objects are records, \<^verbatim>\<open>Map\<close>s are association lists in
  insertion order (\<^verbatim>\<open>keys()\<close> is \<open>map fst\<close>, \<^verbatim>\<open>get\<close> is \<open>map_of\<close>), a value that may be
  \<^verbatim>\<open>null\<close> or \<^verbatim>\<open>undefined\<close> is an \<open>option\<close>, and the array \<^verbatim>\<open>results\<close> that the
  runner pushes to is threaded through the loops as state, next to the list of the
  callbacks the runner invokes.
\<close>

subsection \<open>Facts, entities and results\<close>

datatype ChangeType = Added | Changed | Removed

record Change =
  changeType :: ChangeType

text \<open>The nodes of the fact tree; only the fields the runner reads are kept.\<close>

record EndpointNode =
  change :: "Change option"

record FieldNode =
  change :: "Change option"

record BodyNode =
  change :: "Change option"
  fields' :: "(string \<times> FieldNode) list"

record RequestNode =
  bodies :: "(string \<times> BodyNode) list"

record Operation =
  method' :: string
  path :: string

record ConceptualLocation =
  jsonSchemaTrail :: "string list"

record Location =
  conceptualLocation :: ConceptualLocation

record Field =
  location :: Location

record RequestBody =
  contentType :: string
  properties :: "(string \<times> Field) list"

text \<open>The second argument of \<^verbatim>\<open>createOperation\<close> and the third of \<^verbatim>\<open>createRequest\<close>.\<close>

datatype Side = Before | After

datatype AssertionType = requirement | added | changed | removed

record 'f AssertionResult =
  type' :: AssertionType
  changeOrFact :: 'f
  condition :: string
  passed :: bool
  error :: "string option"

record 'f Result =
  where' :: string
  isMust :: bool
  change :: 'f
  name :: string
  condition :: string
  passed :: bool
  error :: "string option"
  docsLink :: "string option"
  isShould :: bool

subsection \<open>Rules and rulesets\<close>

text \<open>
  The class \<^verbatim>\<open>RequestRule\<close> is declared in \<^verbatim>\<open>../rules\<close>, which is not among the sources;
  a rule has the fields that the functions below and the tests read: \<^verbatim>\<open>name\<close>,
  \<^verbatim>\<open>docsLink\<close>, \<^verbatim>\<open>matches\<close> and \<^verbatim>\<open>rule\<close>. A rule body receives the assertion
  collector (of type \<open>'a\<close>) and the rule context (of type \<open>'x\<close>) and registers assertions
  by mutating the collector: it is a function to the collector after the call.
\<close>

record ('a, 'x) RequestRule =
  name :: string
  docsLink :: "string option"
  matches :: "(RequestBody \<Rightarrow> 'x \<Rightarrow> bool) option"
  rule :: "'a \<Rightarrow> 'x \<Rightarrow> 'a"

text \<open>\<^verbatim>\<open>RequestRule & RulesetData\<close>: a request rule extended by its aliases.\<close>

record ('a, 'x) FlatRule = "('a, 'x) RequestRule" +
  aliases :: "string list"

text \<open>
  A rule is a request rule or a rule of another kind (operation, response, ...), which
  \<^verbatim>\<open>instanceof RequestRule\<close> tells apart.
\<close>

datatype ('a, 'x) Rule = IsRequestRule "('a, 'x) RequestRule" | OtherRule

text \<open>
  Modelled from the spec: the matcher of a ruleset takes the entity and the context, like
  the matcher of a rule (the class \<^verbatim>\<open>Ruleset\<close> is declared in \<^verbatim>\<open>../rules\<close> too; the
  function below only hands its matcher on to \<^verbatim>\<open>createRulesetMatcher\<close>).
\<close>

record ('a, 'x) Ruleset =
  name :: string
  docsLink :: "string option"
  matches :: "(RequestBody \<Rightarrow> 'x \<Rightarrow> bool) option"
  rules :: "('a, 'x) Rule list"

datatype ('a, 'x) Rules = ARule "('a, 'x) Rule" | ARuleset "('a, 'x) Ruleset"

subsection \<open>What the module imports\<close>

text \<open>
  The helpers that \<^verbatim>\<open>runRequestRules\<close> imports from \<^verbatim>\<open>./data-constructors\<close>, \<^verbatim>\<open>./utils\<close>
  and \<^verbatim>\<open>./assertions\<close> are not among the sources. They are parameters of the
  model: \<open>'d\<close> is the type of an OpenAPI document, \<open>'c\<close> of the custom rule context,
  \<open>'x\<close> of a rule context, \<open>'a\<close> of the assertion collector that
  \<^verbatim>\<open>createRequestAssertions()\<close> returns and \<open>'f\<close> of the change or fact that an assertion
  result carries. The four run functions are the methods \<^verbatim>\<open>body.runBefore\<close>,
  \<^verbatim>\<open>property.runBefore\<close>, \<^verbatim>\<open>body.runAfter\<close> and \<^verbatim>\<open>property.runAfter\<close> of the collector.
\<close>

record ('d, 'c, 'x, 'a, 'f) Imports =
  createOperation :: "EndpointNode \<Rightarrow> Side \<Rightarrow> 'd \<Rightarrow> Operation option"
  createRequest :: "RequestNode \<Rightarrow> string \<Rightarrow> Side \<Rightarrow> 'd \<Rightarrow> RequestBody option"
  createRulesetMatcher ::
    "(RequestBody \<Rightarrow> 'x \<Rightarrow> bool) option \<Rightarrow> (RequestBody \<Rightarrow> 'x \<Rightarrow> bool) option
      \<Rightarrow> (RequestBody \<Rightarrow> 'x \<Rightarrow> bool) option"
  getRuleAliases :: "string \<Rightarrow> string \<Rightarrow> string list"
  createAfterOperationContext :: "Operation \<Rightarrow> 'c \<Rightarrow> ChangeType option \<Rightarrow> 'x"
  createBeforeOperationContext :: "Operation \<Rightarrow> 'c \<Rightarrow> 'x"
  assertionLifecycleToText :: "AssertionType \<Rightarrow> string"
  createRequestAssertions :: "'a"
  bodyRunBefore :: "'a \<Rightarrow> RequestBody \<Rightarrow> Change option \<Rightarrow> 'f AssertionResult list"
  propertyRunBefore :: "'a \<Rightarrow> Field \<Rightarrow> Change option \<Rightarrow> 'f AssertionResult list"
  bodyRunAfter ::
    "'a \<Rightarrow> RequestBody option \<Rightarrow> RequestBody \<Rightarrow> Change option \<Rightarrow> 'f AssertionResult list"
  propertyRunAfter ::
    "'a \<Rightarrow> Field option \<Rightarrow> Field \<Rightarrow> Change option \<Rightarrow> 'f AssertionResult list"

subsection \<open>JavaScript helpers\<close>

text \<open>\<^verbatim>\<open>a || b\<close> on optional strings: the empty string is falsy, like \<^verbatim>\<open>undefined\<close>.\<close>

fun truthy :: "string option \<Rightarrow> bool" where
  "truthy None = False"
| "truthy (Some s) = (s \<noteq> [])"

definition orElse :: "string option \<Rightarrow> string option \<Rightarrow> string option" where
  "orElse a b = (if truthy a then a else b)"

text \<open>\<^verbatim>\<open>toUpperCase\<close> on the ASCII letters (an HTTP method is ASCII).\<close>

definition upperChar :: "char \<Rightarrow> char" where
  "upperChar c =
     (let n = (of_char c :: nat) in if 97 \<le> n \<and> n \<le> 122 then char_of (n - 32) else c)"

definition toUpperCase :: "string \<Rightarrow> string" where
  "toUpperCase s = map upperChar s"

fun join :: "string \<Rightarrow> string list \<Rightarrow> string" where
  "join sep [] = []"
| "join sep [x] = x"
| "join sep (x # y # ys) = x @ sep @ join sep (y # ys)"

subsection \<open>getRequestRules\<close>

text \<open>
  The outer loop visits the declared items in order; an item that is a request rule is
  pushed with no aliases, and the request rules of a ruleset are pushed by the inner
  loop with the combined matcher, the aliases and the resolved docs link.
\<close>

definition rulesetRule ::
  "('d, 'c, 'x, 'a, 'f) Imports \<Rightarrow> ('a, 'x) Ruleset \<Rightarrow> ('a, 'x) RequestRule \<Rightarrow> ('a, 'x) FlatRule"
where
  "rulesetRule I ruleOrRuleset rule' =
     RequestRule.extend
       (rule'\<lparr> RequestRule.matches :=
                 createRulesetMatcher I (RequestRule.matches rule') (Ruleset.matches ruleOrRuleset),
               RequestRule.docsLink :=
                 orElse (RequestRule.docsLink rule') (Ruleset.docsLink ruleOrRuleset) \<rparr>)
       (FlatRule.fields (getRuleAliases I (Ruleset.name ruleOrRuleset) (RequestRule.name rule')))"

definition pushRulesetRule ::
  "('d, 'c, 'x, 'a, 'f) Imports \<Rightarrow> ('a, 'x) Ruleset \<Rightarrow> ('a, 'x) Rule
    \<Rightarrow> ('a, 'x) FlatRule list \<Rightarrow> ('a, 'x) FlatRule list"
where
  "pushRulesetRule I ruleOrRuleset r requestRules =
     (case r of
        IsRequestRule rule' \<Rightarrow> requestRules @ [rulesetRule I ruleOrRuleset rule']
      | OtherRule \<Rightarrow> requestRules)"

definition pushRuleOrRuleset ::
  "('d, 'c, 'x, 'a, 'f) Imports \<Rightarrow> ('a, 'x) Rules
    \<Rightarrow> ('a, 'x) FlatRule list \<Rightarrow> ('a, 'x) FlatRule list"
where
  "pushRuleOrRuleset I ruleOrRuleset requestRules =
     (let requestRules1 =
        (case ruleOrRuleset of
           ARule (IsRequestRule r) \<Rightarrow> requestRules @ [RequestRule.extend r (FlatRule.fields [])]
         | _ \<Rightarrow> requestRules)
      in case ruleOrRuleset of
           ARuleset rs \<Rightarrow> fold (pushRulesetRule I rs) (Ruleset.rules rs) requestRules1
         | _ \<Rightarrow> requestRules1)"

definition getRequestRules ::
  "('d, 'c, 'x, 'a, 'f) Imports \<Rightarrow> ('a, 'x) Rules list \<Rightarrow> ('a, 'x) FlatRule list"
where
  "getRequestRules I rules' = fold (pushRuleOrRuleset I) rules' []"

subsection \<open>The result constructors\<close>

text \<open>
  Both take a \<^verbatim>\<open>RequestRule\<close> and are called with a flattened rule: any extension of the
  rule record is accepted.
\<close>

definition createRequestBodyResult ::
  "('d, 'c, 'x, 'a, 'f) Imports \<Rightarrow> 'f AssertionResult \<Rightarrow> RequestBody \<Rightarrow> Operation
    \<Rightarrow> ('a, 'x, 'z) RequestRule_scheme \<Rightarrow> 'f Result"
where
  "createRequestBodyResult I assertionResult request' operation' rule' =
     \<lparr> where' = assertionLifecycleToText I (type' assertionResult)
                  @ '' request with content-type: '' @ contentType request'
                  @ '' in operation: '' @ toUpperCase (method' operation') @ '' ''
                  @ path operation',
       isMust = True,
       change = changeOrFact assertionResult,
       name = RequestRule.name rule',
       condition = AssertionResult.condition assertionResult,
       passed = AssertionResult.passed assertionResult,
       error = AssertionResult.error assertionResult,
       docsLink = RequestRule.docsLink rule',
       isShould = False \<rparr>"

definition createRequestPropertyResult ::
  "('d, 'c, 'x, 'a, 'f) Imports \<Rightarrow> 'f AssertionResult \<Rightarrow> Field \<Rightarrow> RequestBody \<Rightarrow> Operation
    \<Rightarrow> ('a, 'x, 'z) RequestRule_scheme \<Rightarrow> 'f Result"
where
  "createRequestPropertyResult I assertionResult property request' operation' rule' =
     \<lparr> where' = assertionLifecycleToText I (type' assertionResult)
                  @ '' property: ''
                  @ join ''/'' (jsonSchemaTrail (conceptualLocation (location property)))
                  @ '' request body: '' @ contentType request'
                  @ '' in operation: '' @ toUpperCase (method' operation') @ '' ''
                  @ path operation',
       isMust = True,
       change = changeOrFact assertionResult,
       name = RequestRule.name rule',
       condition = AssertionResult.condition assertionResult,
       passed = AssertionResult.passed assertionResult,
       error = AssertionResult.error assertionResult,
       docsLink = RequestRule.docsLink rule',
       isShould = False \<rparr>"

subsection \<open>The state of a run\<close>

text \<open>
  The callbacks that the runner invokes, with their arguments: the body of a rule (with
  the collector it receives), the matcher of a rule, and the four run methods of the
  collector that the rule body has filled.
\<close>

datatype ('a, 'x) Call =
    RuleBody 'a 'x
  | Matches RequestBody 'x
  | BodyRunBefore 'a RequestBody "Change option"
  | PropertyRunBefore 'a Field "Change option"
  | BodyRunAfter 'a "RequestBody option" RequestBody "Change option"
  | PropertyRunAfter 'a "Field option" Field "Change option"

record ('a, 'x, 'f) Run =
  results :: "'f Result list"
  calls :: "('a, 'x) Call list"

definition push :: "'f Result list \<Rightarrow> ('a, 'x, 'f) Run \<Rightarrow> ('a, 'x, 'f) Run" where
  "push rs st = st\<lparr> results := results st @ rs \<rparr>"

definition called :: "('a, 'x) Call \<Rightarrow> ('a, 'x, 'f) Run \<Rightarrow> ('a, 'x, 'f) Run" where
  "called c st = st\<lparr> calls := calls st @ [c] \<rparr>"

text \<open>The argument object of \<^verbatim>\<open>runRequestRules\<close>.\<close>

record ('d, 'c, 'x, 'a) Args =
  operation :: EndpointNode
  request :: RequestNode
  rules :: "('a, 'x) Rules list"
  customRuleContext :: 'c
  beforeApiSpec :: 'd
  afterApiSpec :: 'd

subsection \<open>runRequestRules\<close>

text \<open>\<^verbatim>\<open>request.bodies.get(contentType)?.change || null\<close>\<close>

definition bodyChange :: "RequestNode \<Rightarrow> string \<Rightarrow> Change option" where
  "bodyChange request' contentType' =
     (case map_of (bodies request') contentType' of
        None \<Rightarrow> None
      | Some body \<Rightarrow> BodyNode.change body)"

text \<open>\<^verbatim>\<open>request.bodies.get(contentType)?.fields.get(key)?.change || null\<close>\<close>

definition propertyChange :: "RequestNode \<Rightarrow> string \<Rightarrow> string \<Rightarrow> Change option" where
  "propertyChange request' contentType' key =
     (case map_of (bodies request') contentType' of
        None \<Rightarrow> None
      | Some body \<Rightarrow>
          (case map_of (fields' body) key of
             None \<Rightarrow> None
           | Some field \<Rightarrow> FieldNode.change field))"

text \<open>\<^verbatim>\<open>maybeBeforeRequest?.properties.get(key) || null\<close>\<close>

definition maybeBeforeProperty :: "RequestBody option \<Rightarrow> string \<Rightarrow> Field option" where
  "maybeBeforeProperty maybeBeforeRequest key =
     (case maybeBeforeRequest of
        None \<Rightarrow> None
      | Some beforeRequest \<Rightarrow> map_of (properties beforeRequest) key)"

text \<open>
  \<^verbatim>\<open>!requestRule.matches || requestRule.matches(request, context)\<close>: the matcher is
  called only when the rule has one.
\<close>

definition matchesRequest ::
  "('a, 'x, 'z) RequestRule_scheme \<Rightarrow> RequestBody \<Rightarrow> 'x \<Rightarrow> ('a, 'x, 'f) Run
    \<Rightarrow> bool \<times> ('a, 'x, 'f) Run"
where
  "matchesRequest requestRule request' context st =
     (case RequestRule.matches requestRule of
        None \<Rightarrow> (True, st)
      | Some m \<Rightarrow> (m request' context, called (Matches request' context) st))"

text \<open>The body of the loop over the properties of a before-request.\<close>

definition beforePropertyStep ::
  "('d, 'c, 'x, 'a, 'f) Imports \<Rightarrow> ('d, 'c, 'x, 'a) Args \<Rightarrow> ('a, 'x) FlatRule \<Rightarrow> 'a
    \<Rightarrow> Operation \<Rightarrow> string \<Rightarrow> RequestBody \<Rightarrow> string \<times> Field
    \<Rightarrow> ('a, 'x, 'f) Run \<Rightarrow> ('a, 'x, 'f) Run"
where
  "beforePropertyStep I args requestRule requestAssertions beforeOperation contentType'
       beforeRequest entry st =
     (case entry of (key, property) \<Rightarrow>
        let propertyChange' = propertyChange (request args) contentType' key
        in push
             (map (\<lambda>assertionResult.
                     createRequestPropertyResult I assertionResult property beforeRequest
                       beforeOperation requestRule)
                (propertyRunBefore I requestAssertions property propertyChange'))
             (called (PropertyRunBefore requestAssertions property propertyChange') st))"

text \<open>The push of the body results of a before-request.\<close>

definition beforeBodyStep ::
  "('d, 'c, 'x, 'a, 'f) Imports \<Rightarrow> ('d, 'c, 'x, 'a) Args \<Rightarrow> ('a, 'x) FlatRule \<Rightarrow> 'a
    \<Rightarrow> Operation \<Rightarrow> string \<Rightarrow> RequestBody \<Rightarrow> ('a, 'x, 'f) Run \<Rightarrow> ('a, 'x, 'f) Run"
where
  "beforeBodyStep I args requestRule requestAssertions beforeOperation contentType'
       beforeRequest st =
     (let bodyChange' = bodyChange (request args) contentType'
      in push
           (map (\<lambda>assertionResult.
                   createRequestBodyResult I assertionResult beforeRequest beforeOperation
                     requestRule)
              (bodyRunBefore I requestAssertions beforeRequest bodyChange'))
           (called (BodyRunBefore requestAssertions beforeRequest bodyChange') st))"

text \<open>The body of the loop over the content types, in the before pass.\<close>

definition beforeRequestStep ::
  "('d, 'c, 'x, 'a, 'f) Imports \<Rightarrow> ('d, 'c, 'x, 'a) Args \<Rightarrow> ('a, 'x) FlatRule \<Rightarrow> 'a
    \<Rightarrow> Operation \<Rightarrow> 'x \<Rightarrow> string \<Rightarrow> ('a, 'x, 'f) Run \<Rightarrow> ('a, 'x, 'f) Run"
where
  "beforeRequestStep I args requestRule requestAssertions beforeOperation beforeRulesContext
       contentType' st =
     (case createRequest I (request args) contentType' Before (beforeApiSpec args) of
        None \<Rightarrow> st
      | Some beforeRequest \<Rightarrow>
          (case matchesRequest requestRule beforeRequest beforeRulesContext st of
             (ok, st1) \<Rightarrow>
               if ok then
                 fold
                   (beforePropertyStep I args requestRule requestAssertions beforeOperation
                      contentType' beforeRequest)
                   (properties beforeRequest)
                   (beforeBodyStep I args requestRule requestAssertions beforeOperation
                      contentType' beforeRequest st1)
               else st1))"

text \<open>The body of the loop over the properties of an after-request.\<close>

definition afterPropertyStep ::
  "('d, 'c, 'x, 'a, 'f) Imports \<Rightarrow> ('d, 'c, 'x, 'a) Args \<Rightarrow> ('a, 'x) FlatRule \<Rightarrow> 'a
    \<Rightarrow> Operation \<Rightarrow> string \<Rightarrow> RequestBody option \<Rightarrow> RequestBody \<Rightarrow> string \<times> Field
    \<Rightarrow> ('a, 'x, 'f) Run \<Rightarrow> ('a, 'x, 'f) Run"
where
  "afterPropertyStep I args requestRule requestAssertions afterOperation contentType'
       maybeBeforeRequest afterRequest entry st =
     (case entry of (key, property) \<Rightarrow>
        let maybeBeforeProperty' = maybeBeforeProperty maybeBeforeRequest key;
            propertyChange' = propertyChange (request args) contentType' key
        in push
             (map (\<lambda>assertionResult.
                     createRequestPropertyResult I assertionResult property afterRequest
                       afterOperation requestRule)
                (propertyRunAfter I requestAssertions maybeBeforeProperty' property
                   propertyChange'))
             (called
                (PropertyRunAfter requestAssertions maybeBeforeProperty' property
                   propertyChange') st))"

text \<open>The push of the body results of an after-request.\<close>

definition afterBodyStep ::
  "('d, 'c, 'x, 'a, 'f) Imports \<Rightarrow> ('d, 'c, 'x, 'a) Args \<Rightarrow> ('a, 'x) FlatRule \<Rightarrow> 'a
    \<Rightarrow> Operation \<Rightarrow> string \<Rightarrow> RequestBody option \<Rightarrow> RequestBody
    \<Rightarrow> ('a, 'x, 'f) Run \<Rightarrow> ('a, 'x, 'f) Run"
where
  "afterBodyStep I args requestRule requestAssertions afterOperation contentType'
       maybeBeforeRequest afterRequest st =
     (let bodyChange' = bodyChange (request args) contentType'
      in push
           (map (\<lambda>assertionResult.
                   createRequestBodyResult I assertionResult afterRequest afterOperation
                     requestRule)
              (bodyRunAfter I requestAssertions maybeBeforeRequest afterRequest bodyChange'))
           (called
              (BodyRunAfter requestAssertions maybeBeforeRequest afterRequest bodyChange')
              st))"

text \<open>The body of the loop over the content types, in the after pass.\<close>

definition afterRequestStep ::
  "('d, 'c, 'x, 'a, 'f) Imports \<Rightarrow> ('d, 'c, 'x, 'a) Args \<Rightarrow> ('a, 'x) FlatRule \<Rightarrow> 'a
    \<Rightarrow> Operation \<Rightarrow> 'x \<Rightarrow> string \<Rightarrow> ('a, 'x, 'f) Run \<Rightarrow> ('a, 'x, 'f) Run"
where
  "afterRequestStep I args requestRule requestAssertions afterOperation afterRulesContext
       contentType' st =
     (let maybeBeforeRequest =
            createRequest I (request args) contentType' Before (beforeApiSpec args)
      in case createRequest I (request args) contentType' After (afterApiSpec args) of
           None \<Rightarrow> st
         | Some afterRequest \<Rightarrow>
             (case matchesRequest requestRule afterRequest afterRulesContext st of
                (ok, st1) \<Rightarrow>
                  if ok then
                    fold
                      (afterPropertyStep I args requestRule requestAssertions afterOperation
                         contentType' maybeBeforeRequest afterRequest)
                      (properties afterRequest)
                      (afterBodyStep I args requestRule requestAssertions afterOperation
                         contentType' maybeBeforeRequest afterRequest st1)
                  else st1))"

text \<open>The two passes of one rule: each runs only if the operation exists on its side.\<close>

definition beforePass ::
  "('d, 'c, 'x, 'a, 'f) Imports \<Rightarrow> ('d, 'c, 'x, 'a) Args \<Rightarrow> Operation option
    \<Rightarrow> ('a, 'x) FlatRule \<Rightarrow> ('a, 'x, 'f) Run \<Rightarrow> ('a, 'x, 'f) Run"
where
  "beforePass I args beforeOperation requestRule st =
     (case beforeOperation of
        None \<Rightarrow> st
      | Some beforeOp \<Rightarrow>
          let beforeRulesContext =
                createBeforeOperationContext I beforeOp (customRuleContext args);
              requestAssertions =
                rule requestRule (createRequestAssertions I) beforeRulesContext
          in fold
               (beforeRequestStep I args requestRule requestAssertions beforeOp
                  beforeRulesContext)
               (map fst (bodies (request args)))
               (called (RuleBody (createRequestAssertions I) beforeRulesContext) st))"

definition afterPass ::
  "('d, 'c, 'x, 'a, 'f) Imports \<Rightarrow> ('d, 'c, 'x, 'a) Args \<Rightarrow> Operation option
    \<Rightarrow> ('a, 'x) FlatRule \<Rightarrow> ('a, 'x, 'f) Run \<Rightarrow> ('a, 'x, 'f) Run"
where
  "afterPass I args afterOperation requestRule st =
     (case afterOperation of
        None \<Rightarrow> st
      | Some afterOp \<Rightarrow>
          let afterRulesContext =
                createAfterOperationContext I afterOp (customRuleContext args)
                  (map_option changeType (EndpointNode.change (operation args)));
              requestAssertions =
                rule requestRule (createRequestAssertions I) afterRulesContext
          in fold
               (afterRequestStep I args requestRule requestAssertions afterOp
                  afterRulesContext)
               (map fst (bodies (request args)))
               (called (RuleBody (createRequestAssertions I) afterRulesContext) st))"

text \<open>The body of the loop over the flattened rules.\<close>

definition requestRuleStep ::
  "('d, 'c, 'x, 'a, 'f) Imports \<Rightarrow> ('d, 'c, 'x, 'a) Args \<Rightarrow> Operation option
    \<Rightarrow> Operation option \<Rightarrow> ('a, 'x) FlatRule \<Rightarrow> ('a, 'x, 'f) Run \<Rightarrow> ('a, 'x, 'f) Run"
where
  "requestRuleStep I args beforeOperation afterOperation requestRule st =
     afterPass I args afterOperation requestRule
       (beforePass I args beforeOperation requestRule st)"

text \<open>
  The whole run, as the final state: \<open>results\<close> is the array the function returns, and
  \<open>calls\<close> the callbacks it has invoked, in order.
\<close>

definition runRequestRulesFrom ::
  "('d, 'c, 'x, 'a, 'f) Imports \<Rightarrow> ('d, 'c, 'x, 'a) Args \<Rightarrow> ('a, 'x, 'f) Run"
where
  "runRequestRulesFrom I args =
     (let requestRules = getRequestRules I (rules args);
          beforeOperation = createOperation I (operation args) Before (beforeApiSpec args);
          afterOperation = createOperation I (operation args) After (afterApiSpec args)
      in fold (requestRuleStep I args beforeOperation afterOperation) requestRules
           \<lparr> results = [], calls = [] \<rparr>)"

definition runRequestRules ::
  "('d, 'c, 'x, 'a, 'f) Imports \<Rightarrow> ('d, 'c, 'x, 'a) Args \<Rightarrow> 'f Result list"
where
  "runRequestRules I args = results (runRequestRulesFrom I args)"

subsection \<open>generateRuleRunner\<close>

text \<open>
  The command-line side. The configuration lists rulesets by name; the hosted-ruleset
  client and \<^verbatim>\<open>RulesetConfig.prepareRulesets\<close> are collaborators whose promises may be
  rejected (\<open>Inl\<close>), and \<^verbatim>\<open>StandardRulesets\<close> is the imported catalogue. Objects used as
  dictionaries are maps. \<^verbatim>\<open>console.error\<close> appends a line to the error output, which is
  threaded through as state.
\<close>

record 'k ConfigRuleset =
  name :: string
  config :: 'k

record 'k OpticCliConfig =
  ruleset :: "'k ConfigRuleset list"

record HostedRuleset =
  name :: string
  uploaded_at :: string
  url :: string

record HostedEntry =
  uploaded_at :: string
  url :: string

record Response =
  rulesets :: "HostedRuleset option list"

record ('k, 's) InputPayload =
  ruleset :: "'k ConfigRuleset list"
  localRulesets :: "string \<rightharpoonup> string"
  standardRulesets :: "string \<rightharpoonup> 's"
  hostedRulesets :: "string \<rightharpoonup> HostedEntry"

record 'r Prepared =
  rulesets :: "'r list"
  warnings :: "string list"

datatype 'r RuleRunner = RuleRunner "'r list"

record ('k, 's, 'r, 'e) Cli =
  StandardRulesets :: "string \<rightharpoonup> 's"
  getManyRulesetsByName :: "string list \<Rightarrow> 'e + Response"
  prepareRulesets :: "('k, 's) InputPayload \<Rightarrow> 'e + 'r Prepared"

definition endsWith :: "string \<Rightarrow> string \<Rightarrow> bool" where
  "endsWith s suffix =
     (length suffix \<le> length s \<and> drop (length s - length suffix) s = suffix)"

definition isLocalJsFile :: "string \<Rightarrow> bool" where
  "isLocalJsFile name' = endsWith name' ''.js''"

text \<open>
  The body of the first loop; the state is \<^verbatim>\<open>rulesToFetch\<close> and \<^verbatim>\<open>localRulesets\<close>.
  \<^verbatim>\<open>name in StandardRulesets\<close> is the test that the catalogue has the key (the properties
  an object inherits from its prototype are left out).
\<close>

definition sortRuleset ::
  "('k, 's, 'r, 'e) Cli \<Rightarrow> 'k ConfigRuleset
    \<Rightarrow> string list \<times> (string \<rightharpoonup> string) \<Rightarrow> string list \<times> (string \<rightharpoonup> string)"
where
  "sortRuleset E rule' acc =
     (case acc of (rulesToFetch, localRulesets') \<Rightarrow>
        if StandardRulesets E (ConfigRuleset.name rule') \<noteq> None then
          (rulesToFetch, localRulesets')
        else if isLocalJsFile (ConfigRuleset.name rule') then
          (rulesToFetch,
           localRulesets'(ConfigRuleset.name rule' \<mapsto> ConfigRuleset.name rule'))
        else (rulesToFetch @ [ConfigRuleset.name rule'], localRulesets'))"

text \<open>The body of the second loop; the state is \<^verbatim>\<open>hostedRulesets\<close>.\<close>

definition addHosted ::
  "HostedRuleset option \<Rightarrow> (string \<rightharpoonup> HostedEntry) \<Rightarrow> (string \<rightharpoonup> HostedEntry)"
where
  "addHosted hostedRuleset hostedRulesets' =
     (case hostedRuleset of
        None \<Rightarrow> hostedRulesets'
      | Some h \<Rightarrow>
          hostedRulesets'(HostedRuleset.name h \<mapsto>
            \<lparr> HostedEntry.uploaded_at = HostedRuleset.uploaded_at h,
              HostedEntry.url = HostedRuleset.url h \<rparr>))"

definition rulesToFetchOf :: "('k, 's, 'r, 'e) Cli \<Rightarrow> 'k OpticCliConfig \<Rightarrow> string list" where
  "rulesToFetchOf E config' =
     fst (fold (sortRuleset E) (OpticCliConfig.ruleset config') ([], Map.empty))"

definition payloadOf ::
  "('k, 's, 'r, 'e) Cli \<Rightarrow> 'k OpticCliConfig \<Rightarrow> Response \<Rightarrow> ('k, 's) InputPayload"
where
  "payloadOf E config' response =
     \<lparr> InputPayload.ruleset = OpticCliConfig.ruleset config',
       localRulesets =
         snd (fold (sortRuleset E) (OpticCliConfig.ruleset config') ([], Map.empty)),
       standardRulesets = StandardRulesets E,
       hostedRulesets = fold addHosted (Response.rulesets response) Map.empty \<rparr>"

text \<open>The third loop: every warning is written to the error output, in order.\<close>

definition printWarnings :: "string list \<Rightarrow> string list \<Rightarrow> string list" where
  "printWarnings warnings' console = fold (\<lambda>warning out. out @ [warning]) warnings' console"

definition generateRuleRunner ::
  "('k, 's, 'r, 'e) Cli \<Rightarrow> 'k OpticCliConfig \<Rightarrow> bool \<Rightarrow> string list
    \<Rightarrow> 'e + ('r RuleRunner \<times> string list)"
where
  "generateRuleRunner E config' checksEnabled console =
     (if checksEnabled then
        (case getManyRulesetsByName E (rulesToFetchOf E config') of
           Inl e \<Rightarrow> Inl e
         | Inr response \<Rightarrow>
             (case prepareRulesets E (payloadOf E config' response) of
                Inl e \<Rightarrow> Inl e
              | Inr results' \<Rightarrow>
                  Inr (RuleRunner (Prepared.rulesets results'),
                       printWarnings (warnings results') console)))
      else Inr (RuleRunner [], console))"

section \<open>The collaborators, as the specification describes them\<close>

subsection \<open>The assertion collector and the lifecycle executor\<close>

text \<open>
  Modelled from the spec: the module \<^verbatim>\<open>./assertions\<close> (\<^verbatim>\<open>createRequestAssertions\<close> and the
  methods of the collector) is not among the sources. A predicate either
  returns or raises, a structured failure or any other exception, each with a message.
\<close>

datatype Failure = RuleError string | Exception string

fun message :: "Failure \<Rightarrow> string" where
  "message (RuleError m) = m"
| "message (Exception m) = m"

datatype Outcome = Returns | Raises Failure

text \<open>
  Modelled from the spec: the registrations of one target kind, an ordered list for each
  lifecycle kind; a registration is a description and a predicate (the predicate of a
  \<^verbatim>\<open>changed\<close> assertion takes the instance before and the instance after).
\<close>

record 'i Registrations =
  requirements :: "(string \<times> ('i \<Rightarrow> Outcome)) list"
  addeds :: "(string \<times> ('i \<Rightarrow> Outcome)) list"
  changeds :: "(string \<times> ('i \<Rightarrow> 'i \<Rightarrow> Outcome)) list"
  removeds :: "(string \<times> ('i \<Rightarrow> Outcome)) list"

record RequestAssertions =
  body :: "RequestBody Registrations"
  property :: "Field Registrations"

definition noRegistrations :: "'i Registrations" where
  "noRegistrations = \<lparr> requirements = [], addeds = [], changeds = [], removeds = [] \<rparr>"

text \<open>Modelled from the spec: \<^verbatim>\<open>createRequestAssertions()\<close>, a collector with nothing registered.\<close>

definition createRequestAssertionsSpec :: RequestAssertions where
  "createRequestAssertionsSpec = \<lparr> body = noRegistrations, property = noRegistrations \<rparr>"

text \<open>
  Modelled from the spec: the registration methods \<^verbatim>\<open>requirement\<close>, \<^verbatim>\<open>added\<close>, \<^verbatim>\<open>changed\<close>
  and \<^verbatim>\<open>removed\<close>; each appends to the list of its kind and runs nothing.
\<close>

definition addRequirement ::
  "string \<Rightarrow> ('i \<Rightarrow> Outcome) \<Rightarrow> 'i Registrations \<Rightarrow> 'i Registrations" where
  "addRequirement description predicate regs =
     regs\<lparr> requirements := requirements regs @ [(description, predicate)] \<rparr>"

definition addAdded ::
  "string \<Rightarrow> ('i \<Rightarrow> Outcome) \<Rightarrow> 'i Registrations \<Rightarrow> 'i Registrations" where
  "addAdded description predicate regs =
     regs\<lparr> addeds := addeds regs @ [(description, predicate)] \<rparr>"

definition addChanged ::
  "string \<Rightarrow> ('i \<Rightarrow> 'i \<Rightarrow> Outcome) \<Rightarrow> 'i Registrations \<Rightarrow> 'i Registrations" where
  "addChanged description predicate regs =
     regs\<lparr> changeds := changeds regs @ [(description, predicate)] \<rparr>"

definition addRemoved ::
  "string \<Rightarrow> ('i \<Rightarrow> Outcome) \<Rightarrow> 'i Registrations \<Rightarrow> 'i Registrations" where
  "addRemoved description predicate regs =
     regs\<lparr> removeds := removeds regs @ [(description, predicate)] \<rparr>"

text \<open>
  Modelled from the spec: one predicate invocation, wrapped on its own. A predicate that
  returns yields \<open>passed = True\<close>; one that raises yields \<open>passed = False\<close> and the
  message. The change the pass was given is kept as the snapshot.
\<close>

definition runAssertion ::
  "AssertionType \<Rightarrow> Change option \<Rightarrow> string \<Rightarrow> Outcome \<Rightarrow> (Change option) AssertionResult"
where
  "runAssertion kind change' description outcome =
     (case outcome of
        Returns \<Rightarrow>
          \<lparr> type' = kind, changeOrFact = change', condition = description, passed = True,
            error = None \<rparr>
      | Raises failure \<Rightarrow>
          \<lparr> type' = kind, changeOrFact = change', condition = description, passed = False,
            error = Some (message failure) \<rparr>)"

text \<open>Modelled from the spec: the loop over the registrations of one kind.\<close>

definition runEach ::
  "AssertionType \<Rightarrow> Change option \<Rightarrow> 'i \<Rightarrow> (string \<times> ('i \<Rightarrow> Outcome)) list
    \<Rightarrow> (Change option) AssertionResult list \<Rightarrow> (Change option) AssertionResult list"
where
  "runEach kind change' instance' regs out =
     fold (\<lambda>reg acc. acc @ [runAssertion kind change' (fst reg) (snd reg instance')]) regs out"

text \<open>
  Modelled from the spec: the change classification a pass is given; \<^verbatim>\<open>null\<close> stands for
  an entity that has not changed.
\<close>

definition classification :: "Change option \<Rightarrow> ChangeType option" where
  "classification change' = map_option changeType change'"

text \<open>
  Modelled from the spec: \<^verbatim>\<open>runBeforePass\<close> runs the \<^verbatim>\<open>requirement\<close> assertions on the
  instance before, and the \<^verbatim>\<open>removed\<close> assertions if the classification is Removed.
\<close>

definition runBeforePass ::
  "'i Registrations \<Rightarrow> 'i \<Rightarrow> Change option \<Rightarrow> (Change option) AssertionResult list"
where
  "runBeforePass regs beforeInstance change' =
     (let out = runEach requirement change' beforeInstance (requirements regs) []
      in if classification change' = Some Removed then
           runEach removed change' beforeInstance (removeds regs) out
         else out)"

text \<open>
  Modelled from the spec: \<^verbatim>\<open>runAfterPass\<close> runs the \<^verbatim>\<open>requirement\<close> assertions on the
  instance after, the \<^verbatim>\<open>added\<close> assertions if the classification is Added, and the
  \<^verbatim>\<open>changed\<close> assertions, on both instances, if it is Changed (a changed entity has an
  instance before; with none there is nothing to pass, and nothing is run).
\<close>

definition runAfterPass ::
  "'i Registrations \<Rightarrow> 'i option \<Rightarrow> 'i \<Rightarrow> Change option
    \<Rightarrow> (Change option) AssertionResult list"
where
  "runAfterPass regs beforeInstance afterInstance change' =
     (let out1 = runEach requirement change' afterInstance (requirements regs) [];
          out2 = (if classification change' = Some Added then
                    runEach added change' afterInstance (addeds regs) out1
                  else out1)
      in if classification change' = Some Changed then
           (case beforeInstance of
              None \<Rightarrow> out2
            | Some b \<Rightarrow>
                runEach changed change' afterInstance
                  (map (\<lambda>reg. (fst reg, snd reg b)) (changeds regs)) out2)
         else out2)"

subsection \<open>The helpers of the runner\<close>

text \<open>
  Modelled from the spec: \<^verbatim>\<open>createRulesetMatcher\<close> of \<^verbatim>\<open>./utils\<close>, the logical AND of the
  matcher of the ruleset and the matcher of the rule (an absent matcher accepts).
\<close>

definition createRulesetMatcherSpec ::
  "(RequestBody \<Rightarrow> 'x \<Rightarrow> bool) option \<Rightarrow> (RequestBody \<Rightarrow> 'x \<Rightarrow> bool) option
    \<Rightarrow> (RequestBody \<Rightarrow> 'x \<Rightarrow> bool) option"
where
  "createRulesetMatcherSpec ruleMatcher rulesetMatcher =
     Some (\<lambda>item context.
       (case rulesetMatcher of None \<Rightarrow> True | Some m \<Rightarrow> m item context)
       \<and> (case ruleMatcher of None \<Rightarrow> True | Some m \<Rightarrow> m item context))"

text \<open>
  Modelled from the spec: \<^verbatim>\<open>getRuleAliases\<close> of \<^verbatim>\<open>./utils\<close>, the traceable name
  \<^verbatim>\<open>"<ruleset.name> > <rule.name>"\<close> of a contained rule.
\<close>

definition getRuleAliasesSpec :: "string \<Rightarrow> string \<Rightarrow> string list" where
  "getRuleAliasesSpec rulesetName ruleName = [rulesetName @ '' > '' @ ruleName]"

text \<open>
  Modelled from the spec: the rule contexts of \<^verbatim>\<open>./utils\<close>, the operation and the custom
  context, and in the after pass the change classification of the operation.
\<close>

record 'c RuleContext =
  operation :: Operation
  custom :: 'c
  operationChangeType :: "ChangeType option"

definition createBeforeOperationContextSpec :: "Operation \<Rightarrow> 'c \<Rightarrow> 'c RuleContext" where
  "createBeforeOperationContextSpec operation' custom' =
     \<lparr> RuleContext.operation = operation', custom = custom', operationChangeType = None \<rparr>"

definition createAfterOperationContextSpec ::
  "Operation \<Rightarrow> 'c \<Rightarrow> ChangeType option \<Rightarrow> 'c RuleContext" where
  "createAfterOperationContextSpec operation' custom' changeType' =
     \<lparr> RuleContext.operation = operation', custom = custom',
       operationChangeType = changeType' \<rparr>"

text \<open>Modelled from the spec: \<^verbatim>\<open>assertionLifecycleToText\<close> of \<^verbatim>\<open>./assertions\<close>, the lifecycle label.\<close>

fun assertionLifecycleToTextSpec :: "AssertionType \<Rightarrow> string" where
  "assertionLifecycleToTextSpec requirement = ''requirement''"
| "assertionLifecycleToTextSpec added = ''added''"
| "assertionLifecycleToTextSpec changed = ''changed''"
| "assertionLifecycleToTextSpec removed = ''removed''"

section \<open>The run, described in order\<close>

text \<open>
  What a run pushes and what it calls, written as the specification describes the
  traversal: rule by rule, the before pass and then the after pass, content type by
  content type, the body and then its properties. The theorems below compare these
  descriptions with the loops of \<open>runRequestRules\<close>.
\<close>

text \<open>The results a step has pushed, from the state before and the state after.\<close>

definition pushed :: "('a, 'x, 'f) Run \<Rightarrow> ('a, 'x, 'f) Run \<Rightarrow> 'f Result list" where
  "pushed st st' = drop (length (results st)) (results st')"

text \<open>A rule accepts an instance if it has no matcher or its matcher returns true.\<close>

definition accepts :: "('a, 'x, 'z) RequestRule_scheme \<Rightarrow> RequestBody \<Rightarrow> 'x \<Rightarrow> bool" where
  "accepts requestRule request' context =
     (case RequestRule.matches requestRule of None \<Rightarrow> True | Some m \<Rightarrow> m request' context)"

definition matcherCalls ::
  "('a, 'x, 'z) RequestRule_scheme \<Rightarrow> RequestBody \<Rightarrow> 'x \<Rightarrow> ('a, 'x) Call list" where
  "matcherCalls requestRule request' context =
     (case RequestRule.matches requestRule of None \<Rightarrow> [] | Some m \<Rightarrow> [Matches request' context])"

fun isRuleBody :: "('a, 'x) Call \<Rightarrow> bool" where
  "isRuleBody (RuleBody A x) = True"
| "isRuleBody _ = False"

fun isMatches :: "('a, 'x) Call \<Rightarrow> bool" where
  "isMatches (Matches b x) = True"
| "isMatches _ = False"

text \<open>The context of each pass, and the collector after the rule body has run on a new one.\<close>

definition beforeContext ::
  "('d, 'c, 'x, 'a, 'f) Imports \<Rightarrow> ('d, 'c, 'x, 'a) Args \<Rightarrow> Operation \<Rightarrow> 'x"
where
  "beforeContext I args beforeOperation =
     createBeforeOperationContext I beforeOperation (customRuleContext args)"

definition afterContext ::
  "('d, 'c, 'x, 'a, 'f) Imports \<Rightarrow> ('d, 'c, 'x, 'a) Args \<Rightarrow> Operation \<Rightarrow> 'x"
where
  "afterContext I args afterOperation =
     createAfterOperationContext I afterOperation (customRuleContext args)
       (map_option changeType (EndpointNode.change (Args.operation args)))"

definition registered ::
  "('d, 'c, 'x, 'a, 'f) Imports \<Rightarrow> ('a, 'x) FlatRule \<Rightarrow> 'x \<Rightarrow> 'a"
where
  "registered I requestRule context = rule requestRule (createRequestAssertions I) context"

text \<open>The before pass.\<close>

definition beforeBodyResults ::
  "('d, 'c, 'x, 'a, 'f) Imports \<Rightarrow> ('d, 'c, 'x, 'a) Args \<Rightarrow> ('a, 'x) FlatRule \<Rightarrow> 'a
    \<Rightarrow> Operation \<Rightarrow> string \<Rightarrow> RequestBody \<Rightarrow> 'f Result list"
where
  "beforeBodyResults I args requestRule requestAssertions beforeOperation contentType'
       beforeRequest =
     map (\<lambda>assertionResult.
            createRequestBodyResult I assertionResult beforeRequest beforeOperation
              requestRule)
       (bodyRunBefore I requestAssertions beforeRequest
          (bodyChange (request args) contentType'))"

definition beforePropertyResults ::
  "('d, 'c, 'x, 'a, 'f) Imports \<Rightarrow> ('d, 'c, 'x, 'a) Args \<Rightarrow> ('a, 'x) FlatRule \<Rightarrow> 'a
    \<Rightarrow> Operation \<Rightarrow> string \<Rightarrow> RequestBody \<Rightarrow> string \<times> Field \<Rightarrow> 'f Result list"
where
  "beforePropertyResults I args requestRule requestAssertions beforeOperation contentType'
       beforeRequest entry =
     map (\<lambda>assertionResult.
            createRequestPropertyResult I assertionResult (snd entry) beforeRequest
              beforeOperation requestRule)
       (propertyRunBefore I requestAssertions (snd entry)
          (propertyChange (request args) contentType' (fst entry)))"

definition beforePropertyCall ::
  "('d, 'c, 'x, 'a) Args \<Rightarrow> 'a \<Rightarrow> string \<Rightarrow> string \<times> Field \<Rightarrow> ('a, 'x) Call"
where
  "beforePropertyCall args requestAssertions contentType' entry =
     PropertyRunBefore requestAssertions (snd entry)
       (propertyChange (request args) contentType' (fst entry))"

definition beforeRequestResults ::
  "('d, 'c, 'x, 'a, 'f) Imports \<Rightarrow> ('d, 'c, 'x, 'a) Args \<Rightarrow> ('a, 'x) FlatRule \<Rightarrow> 'a
    \<Rightarrow> Operation \<Rightarrow> 'x \<Rightarrow> string \<Rightarrow> 'f Result list"
where
  "beforeRequestResults I args requestRule requestAssertions beforeOperation beforeRulesContext
       contentType' =
     (case createRequest I (request args) contentType' Before (beforeApiSpec args) of
        None \<Rightarrow> []
      | Some beforeRequest \<Rightarrow>
          if accepts requestRule beforeRequest beforeRulesContext then
            beforeBodyResults I args requestRule requestAssertions beforeOperation
              contentType' beforeRequest
            @ concat
                (map (beforePropertyResults I args requestRule requestAssertions
                        beforeOperation contentType' beforeRequest)
                   (properties beforeRequest))
          else [])"

definition beforeRequestCalls ::
  "('d, 'c, 'x, 'a, 'f) Imports \<Rightarrow> ('d, 'c, 'x, 'a) Args \<Rightarrow> ('a, 'x) FlatRule \<Rightarrow> 'a
    \<Rightarrow> 'x \<Rightarrow> string \<Rightarrow> ('a, 'x) Call list"
where
  "beforeRequestCalls I args requestRule requestAssertions beforeRulesContext contentType' =
     (case createRequest I (request args) contentType' Before (beforeApiSpec args) of
        None \<Rightarrow> []
      | Some beforeRequest \<Rightarrow>
          matcherCalls requestRule beforeRequest beforeRulesContext
          @ (if accepts requestRule beforeRequest beforeRulesContext then
               BodyRunBefore requestAssertions beforeRequest
                 (bodyChange (request args) contentType')
               # map (beforePropertyCall args requestAssertions contentType')
                   (properties beforeRequest)
             else []))"

definition beforePassResults ::
  "('d, 'c, 'x, 'a, 'f) Imports \<Rightarrow> ('d, 'c, 'x, 'a) Args \<Rightarrow> Operation option
    \<Rightarrow> ('a, 'x) FlatRule \<Rightarrow> 'f Result list"
where
  "beforePassResults I args beforeOperation requestRule =
     (case beforeOperation of
        None \<Rightarrow> []
      | Some beforeOp \<Rightarrow>
          concat
            (map (beforeRequestResults I args requestRule
                    (registered I requestRule (beforeContext I args beforeOp)) beforeOp
                    (beforeContext I args beforeOp))
               (map fst (bodies (request args)))))"

definition beforePassCalls ::
  "('d, 'c, 'x, 'a, 'f) Imports \<Rightarrow> ('d, 'c, 'x, 'a) Args \<Rightarrow> Operation option
    \<Rightarrow> ('a, 'x) FlatRule \<Rightarrow> ('a, 'x) Call list"
where
  "beforePassCalls I args beforeOperation requestRule =
     (case beforeOperation of
        None \<Rightarrow> []
      | Some beforeOp \<Rightarrow>
          RuleBody (createRequestAssertions I) (beforeContext I args beforeOp)
          # concat
              (map (beforeRequestCalls I args requestRule
                      (registered I requestRule (beforeContext I args beforeOp))
                      (beforeContext I args beforeOp))
                 (map fst (bodies (request args)))))"

text \<open>The after pass.\<close>

definition afterBodyResults ::
  "('d, 'c, 'x, 'a, 'f) Imports \<Rightarrow> ('d, 'c, 'x, 'a) Args \<Rightarrow> ('a, 'x) FlatRule \<Rightarrow> 'a
    \<Rightarrow> Operation \<Rightarrow> string \<Rightarrow> RequestBody option \<Rightarrow> RequestBody \<Rightarrow> 'f Result list"
where
  "afterBodyResults I args requestRule requestAssertions afterOperation contentType'
       maybeBeforeRequest afterRequest =
     map (\<lambda>assertionResult.
            createRequestBodyResult I assertionResult afterRequest afterOperation
              requestRule)
       (bodyRunAfter I requestAssertions maybeBeforeRequest afterRequest
          (bodyChange (request args) contentType'))"

definition afterPropertyResults ::
  "('d, 'c, 'x, 'a, 'f) Imports \<Rightarrow> ('d, 'c, 'x, 'a) Args \<Rightarrow> ('a, 'x) FlatRule \<Rightarrow> 'a
    \<Rightarrow> Operation \<Rightarrow> string \<Rightarrow> RequestBody option \<Rightarrow> RequestBody \<Rightarrow> string \<times> Field
    \<Rightarrow> 'f Result list"
where
  "afterPropertyResults I args requestRule requestAssertions afterOperation contentType'
       maybeBeforeRequest afterRequest entry =
     map (\<lambda>assertionResult.
            createRequestPropertyResult I assertionResult (snd entry) afterRequest
              afterOperation requestRule)
       (propertyRunAfter I requestAssertions
          (maybeBeforeProperty maybeBeforeRequest (fst entry)) (snd entry)
          (propertyChange (request args) contentType' (fst entry)))"

definition afterPropertyCall ::
  "('d, 'c, 'x, 'a) Args \<Rightarrow> 'a \<Rightarrow> string \<Rightarrow> RequestBody option \<Rightarrow> string \<times> Field
    \<Rightarrow> ('a, 'x) Call"
where
  "afterPropertyCall args requestAssertions contentType' maybeBeforeRequest entry =
     PropertyRunAfter requestAssertions (maybeBeforeProperty maybeBeforeRequest (fst entry))
       (snd entry) (propertyChange (request args) contentType' (fst entry))"

definition afterRequestResults ::
  "('d, 'c, 'x, 'a, 'f) Imports \<Rightarrow> ('d, 'c, 'x, 'a) Args \<Rightarrow> ('a, 'x) FlatRule \<Rightarrow> 'a
    \<Rightarrow> Operation \<Rightarrow> 'x \<Rightarrow> string \<Rightarrow> 'f Result list"
where
  "afterRequestResults I args requestRule requestAssertions afterOperation afterRulesContext
       contentType' =
     (case createRequest I (request args) contentType' After (afterApiSpec args) of
        None \<Rightarrow> []
      | Some afterRequest \<Rightarrow>
          if accepts requestRule afterRequest afterRulesContext then
            afterBodyResults I args requestRule requestAssertions afterOperation contentType'
              (createRequest I (request args) contentType' Before (beforeApiSpec args))
              afterRequest
            @ concat
                (map (afterPropertyResults I args requestRule requestAssertions afterOperation
                        contentType'
                        (createRequest I (request args) contentType' Before
                           (beforeApiSpec args))
                        afterRequest)
                   (properties afterRequest))
          else [])"

definition afterRequestCalls ::
  "('d, 'c, 'x, 'a, 'f) Imports \<Rightarrow> ('d, 'c, 'x, 'a) Args \<Rightarrow> ('a, 'x) FlatRule \<Rightarrow> 'a
    \<Rightarrow> 'x \<Rightarrow> string \<Rightarrow> ('a, 'x) Call list"
where
  "afterRequestCalls I args requestRule requestAssertions afterRulesContext contentType' =
     (case createRequest I (request args) contentType' After (afterApiSpec args) of
        None \<Rightarrow> []
      | Some afterRequest \<Rightarrow>
          matcherCalls requestRule afterRequest afterRulesContext
          @ (if accepts requestRule afterRequest afterRulesContext then
               BodyRunAfter requestAssertions
                 (createRequest I (request args) contentType' Before (beforeApiSpec args))
                 afterRequest (bodyChange (request args) contentType')
               # map (afterPropertyCall args requestAssertions contentType'
                        (createRequest I (request args) contentType' Before
                           (beforeApiSpec args)))
                   (properties afterRequest)
             else []))"

definition afterPassResults ::
  "('d, 'c, 'x, 'a, 'f) Imports \<Rightarrow> ('d, 'c, 'x, 'a) Args \<Rightarrow> Operation option
    \<Rightarrow> ('a, 'x) FlatRule \<Rightarrow> 'f Result list"
where
  "afterPassResults I args afterOperation requestRule =
     (case afterOperation of
        None \<Rightarrow> []
      | Some afterOp \<Rightarrow>
          concat
            (map (afterRequestResults I args requestRule
                    (registered I requestRule (afterContext I args afterOp)) afterOp
                    (afterContext I args afterOp))
               (map fst (bodies (request args)))))"

definition afterPassCalls ::
  "('d, 'c, 'x, 'a, 'f) Imports \<Rightarrow> ('d, 'c, 'x, 'a) Args \<Rightarrow> Operation option
    \<Rightarrow> ('a, 'x) FlatRule \<Rightarrow> ('a, 'x) Call list"
where
  "afterPassCalls I args afterOperation requestRule =
     (case afterOperation of
        None \<Rightarrow> []
      | Some afterOp \<Rightarrow>
          RuleBody (createRequestAssertions I) (afterContext I args afterOp)
          # concat
              (map (afterRequestCalls I args requestRule
                      (registered I requestRule (afterContext I args afterOp))
                      (afterContext I args afterOp))
                 (map fst (bodies (request args)))))"

text \<open>
  The flattening, as the specification describes it: a standalone request rule is kept
  as it is, with no aliases; a ruleset is replaced, in place, by its request rules, each
  with the matcher that is the AND of the ruleset's and its own, with its own docs link
  if it has one (a non-empty string, which is what \<^verbatim>\<open>||\<close> tests) and the ruleset's
  otherwise, and with the aliases that \<^verbatim>\<open>getRuleAliases\<close> gives.
\<close>

definition flattenRulesetRule ::
  "('d, 'c, 'x, 'a, 'f) Imports \<Rightarrow> ('a, 'x) Ruleset \<Rightarrow> ('a, 'x) RequestRule \<Rightarrow> ('a, 'x) FlatRule"
where
  "flattenRulesetRule I ruleset' r =
     \<lparr> RequestRule.name = RequestRule.name r,
       docsLink =
         (if truthy (RequestRule.docsLink r) then RequestRule.docsLink r
          else Ruleset.docsLink ruleset'),
       matches =
         Some (\<lambda>item context.
           (case Ruleset.matches ruleset' of None \<Rightarrow> True | Some m \<Rightarrow> m item context)
           \<and> (case RequestRule.matches r of None \<Rightarrow> True | Some m \<Rightarrow> m item context)),
       rule = rule r,
       aliases = getRuleAliases I (Ruleset.name ruleset') (RequestRule.name r) \<rparr>"

fun requestRulesOf :: "('a, 'x) Rule list \<Rightarrow> ('a, 'x) RequestRule list" where
  "requestRulesOf [] = []"
| "requestRulesOf (IsRequestRule r # rs) = r # requestRulesOf rs"
| "requestRulesOf (OtherRule # rs) = requestRulesOf rs"

fun flatten ::
  "('d, 'c, 'x, 'a, 'f) Imports \<Rightarrow> ('a, 'x) Rules \<Rightarrow> ('a, 'x) FlatRule list"
where
  "flatten I (ARule (IsRequestRule r)) =
     [\<lparr> RequestRule.name = RequestRule.name r, docsLink = RequestRule.docsLink r,
        matches = RequestRule.matches r, rule = rule r, aliases = [] \<rparr>]"
| "flatten I (ARule OtherRule) = []"
| "flatten I (ARuleset ruleset') =
     map (flattenRulesetRule I ruleset') (requestRulesOf (Ruleset.rules ruleset'))"

text \<open>The names of the declared request rules, in declaration order.\<close>

fun declaredNames :: "('a, 'x) Rules \<Rightarrow> string list" where
  "declaredNames (ARule (IsRequestRule r)) = [RequestRule.name r]"
| "declaredNames (ARule OtherRule) = []"
| "declaredNames (ARuleset ruleset') =
     map RequestRule.name (requestRulesOf (Ruleset.rules ruleset'))"

text \<open>What the outer loop of \<open>getRequestRules\<close> pushes for one declared item.\<close>

definition expand ::
  "('d, 'c, 'x, 'a, 'f) Imports \<Rightarrow> ('a, 'x) Rules \<Rightarrow> ('a, 'x) FlatRule list" where
  "expand I item =
     (case item of
        ARule (IsRequestRule r) \<Rightarrow> [RequestRule.extend r (FlatRule.fields [])]
      | ARule OtherRule \<Rightarrow> []
      | ARuleset rs \<Rightarrow> map (rulesetRule I rs) (requestRulesOf (Ruleset.rules rs)))"

section \<open>The runner with the collector of the specification\<close>

text \<open>
  The run methods of any imports replaced by the collector and the executor modelled
  above, and what a predicate invocation is reported as.
\<close>

definition withSpecCollector ::
  "('d, 'c, 'x, RequestAssertions, Change option) Imports
    \<Rightarrow> ('d, 'c, 'x, RequestAssertions, Change option) Imports"
where
  "withSpecCollector I =
     I\<lparr> createRequestAssertions := createRequestAssertionsSpec,
        bodyRunBefore := (\<lambda>A. runBeforePass (body A)),
        propertyRunBefore := (\<lambda>A. runBeforePass (property A)),
        bodyRunAfter := (\<lambda>A. runAfterPass (body A)),
        propertyRunAfter := (\<lambda>A. runAfterPass (property A)) \<rparr>"

text \<open>
  How the specification has an outcome reported: passed, or not passed with the message.
\<close>

fun verdict :: "Outcome \<Rightarrow> bool \<times> string option" where
  "verdict Returns = (True, None)"
| "verdict (Raises failure) = (False, Some (message failure))"

text \<open>What a result reports of its predicate: \<open>passed\<close> and \<open>error\<close>.\<close>

definition reported :: "'f Result \<Rightarrow> bool \<times> string option" where
  "reported res = (Result.passed res, Result.error res)"

section \<open>A sample run\<close>

text \<open>
  Concrete inputs for the examples: a document is the operation it declares, if any,
  with its request bodies by content type, and the helpers look the entities up in it.
\<close>

type_synonym SampleDocument = "(Operation \<times> (string \<times> RequestBody) list) option"

definition sampleImports ::
  "(SampleDocument, unit, unit RuleContext, RequestAssertions, Change option) Imports"
where
  "sampleImports =
     \<lparr> createOperation = (\<lambda>node side document. map_option fst document),
       createRequest = (\<lambda>node contentType' side document.
         case document of None \<Rightarrow> None | Some d \<Rightarrow> map_of (snd d) contentType'),
       createRulesetMatcher = createRulesetMatcherSpec,
       getRuleAliases = getRuleAliasesSpec,
       createAfterOperationContext = createAfterOperationContextSpec,
       createBeforeOperationContext = createBeforeOperationContextSpec,
       assertionLifecycleToText = assertionLifecycleToTextSpec,
       createRequestAssertions = createRequestAssertionsSpec,
       bodyRunBefore = (\<lambda>A. runBeforePass (body A)),
       propertyRunBefore = (\<lambda>A. runBeforePass (property A)),
       bodyRunAfter = (\<lambda>A. runAfterPass (body A)),
       propertyRunAfter = (\<lambda>A. runAfterPass (property A)) \<rparr>"

definition usersOperation :: Operation where
  "usersOperation = \<lparr> method' = ''get'', path = ''/api/users'' \<rparr>"

definition lookAtMe :: Field where
  "lookAtMe =
     \<lparr> location = \<lparr> conceptualLocation = \<lparr> jsonSchemaTrail = [''properties'', ''lookAtMe''] \<rparr> \<rparr> \<rparr>"

definition jsonBody :: RequestBody where
  "jsonBody = \<lparr> contentType = ''application/json'', properties = [(''lookAtMe'', lookAtMe)] \<rparr>"

definition xmlBody :: RequestBody where
  "xmlBody = \<lparr> contentType = ''application/xml'', properties = [] \<rparr>"

definition sampleDocument :: SampleDocument where
  "sampleDocument =
     Some (usersOperation, [(''application/json'', jsonBody), (''application/xml'', xmlBody)])"

definition sampleRequest :: RequestNode where
  "sampleRequest =
     \<lparr> bodies =
         [(''application/json'',
           \<lparr> BodyNode.change = None, fields' = [(''lookAtMe'', \<lparr> FieldNode.change = None \<rparr>)] \<rparr>),
          (''application/xml'', \<lparr> BodyNode.change = None, fields' = [] \<rparr>)] \<rparr>"

definition noRequiredRemoval :: "(RequestAssertions, unit RuleContext) RequestRule" where
  "noRequiredRemoval =
     \<lparr> RequestRule.name = ''no-required-removal'', docsLink = None, matches = None,
       rule = (\<lambda>A context.
         A\<lparr> body := addRequirement ''must contain a type''
                (\<lambda>b. Raises (RuleError ''request body does not have `type`'')) (body A) \<rparr>) \<rparr>"

definition xmlOnly :: "(RequestAssertions, unit RuleContext) RequestRule" where
  "xmlOnly =
     \<lparr> RequestRule.name = ''request'', docsLink = None,
       matches = Some (\<lambda>b context. contentType b = ''application/xml''),
       rule = (\<lambda>A context.
         A\<lparr> body := addRequirement ''triggers test'' (\<lambda>b. Returns) (body A),
            property := addRequirement ''has a key'' (\<lambda>p. Returns) (property A) \<rparr>) \<rparr>"

definition breakingChanges :: "(RequestAssertions, unit RuleContext) Ruleset" where
  "breakingChanges =
     \<lparr> Ruleset.name = ''Breaking Changes'', docsLink = Some ''https://example.com/rules'',
       matches = None, rules = [IsRequestRule noRequiredRemoval] \<rparr>"

definition sampleArgs ::
  "(RequestAssertions, unit RuleContext) Rules list
    \<Rightarrow> (SampleDocument, unit, unit RuleContext, RequestAssertions) Args"
where
  "sampleArgs rules' =
     \<lparr> Args.operation = \<lparr> EndpointNode.change = None \<rparr>, request = sampleRequest,
       rules = rules', customRuleContext = (), beforeApiSpec = sampleDocument,
       afterApiSpec = sampleDocument \<rparr>"

text \<open>The same inputs with the \<^verbatim>\<open>application/json\<close> body removed in the document after.\<close>

definition jsonRemovedArgs ::
  "(RequestAssertions, unit RuleContext) Rules list
    \<Rightarrow> (SampleDocument, unit, unit RuleContext, RequestAssertions) Args"
where
  "jsonRemovedArgs rules' =
     (sampleArgs rules')
       \<lparr> afterApiSpec := Some (usersOperation, [(''application/xml'', xmlBody)]) \<rparr>"

text \<open>
  The same inputs for an operation that the document before does not have: the operation
  is classified as added.
\<close>

definition addedOperationArgs ::
  "(RequestAssertions, unit RuleContext) Rules list
    \<Rightarrow> (SampleDocument, unit, unit RuleContext, RequestAssertions) Args"
where
  "addedOperationArgs rules' =
     (sampleArgs rules')
       \<lparr> Args.operation := \<lparr> EndpointNode.change = Some \<lparr> changeType = Added \<rparr> \<rparr>,
         beforeApiSpec := None \<rparr>"

text \<open>A collector with two requirements on bodies; the predicate of the first one raises.\<close>

definition twoRequirements :: RequestAssertions where
  "twoRequirements =
     createRequestAssertionsSpec
       \<lparr> body :=
           addRequirement ''has a schema'' (\<lambda>b. Returns)
             (addRequirement ''must contain a type''
                (\<lambda>b. Raises (RuleError ''request body does not have `type`''))
                noRegistrations) \<rparr>"

definition xmlOnlyFlat :: "(RequestAssertions, unit RuleContext) FlatRule" where
  "xmlOnlyFlat = RequestRule.extend xmlOnly (FlatRule.fields [])"

definition usersContext :: "unit RuleContext" where
  "usersContext = createBeforeOperationContextSpec usersOperation ()"

definition emptyRun :: "(RequestAssertions, unit RuleContext, Change option) Run" where
  "emptyRun = \<lparr> results = [], calls = [] \<rparr>"

text \<open>
  A sample of the command-line side: a catalogue with one standard ruleset, a registry that
  knows no ruleset, and a resolution that reports every name it cannot resolve.
\<close>

definition sampleResolves :: "(unit, unit) InputPayload \<Rightarrow> string \<Rightarrow> bool" where
  "sampleResolves payload name' =
     (standardRulesets payload name' \<noteq> None \<or> localRulesets payload name' \<noteq> None
      \<or> hostedRulesets payload name' \<noteq> None)"

definition sampleCli :: "(unit, unit, string, string) Cli" where
  "sampleCli =
     \<lparr> StandardRulesets = [''breaking-changes'' \<mapsto> ()],
       getManyRulesetsByName = (\<lambda>names. Inr \<lparr> Response.rulesets = map (\<lambda>n. None) names \<rparr>),
       prepareRulesets = (\<lambda>payload.
         Inr \<lparr> Prepared.rulesets =
                 filter (sampleResolves payload)
                   (map ConfigRuleset.name (InputPayload.ruleset payload)),
               warnings =
                 map (\<lambda>n. ''unresolved: '' @ n)
                   (filter (\<lambda>n. \<not> sampleResolves payload n)
                      (map ConfigRuleset.name (InputPayload.ruleset payload))) \<rparr>) \<rparr>"

definition sampleConfig :: "unit OpticCliConfig" where
  "sampleConfig =
     \<lparr> OpticCliConfig.ruleset =
         [\<lparr> ConfigRuleset.name = ''breaking-changes'', config = () \<rparr>,
          \<lparr> ConfigRuleset.name = ''./local.js'', config = () \<rparr>,
          \<lparr> ConfigRuleset.name = ''@org/unknown'', config = () \<rparr>] \<rparr>"

section \<open>Lemmas\<close>

subsection \<open>What a step adds to the state\<close>

lemma results_push [simp]: "results (push rs st) = results st @ rs"
  by (simp add: push_def)

lemma calls_push [simp]: "calls (push rs st) = calls st"
  by (simp add: push_def)

lemma results_called [simp]: "results (called c st) = results st"
  by (simp add: called_def)

lemma calls_called [simp]: "calls (called c st) = calls st @ [c]"
  by (simp add: called_def)

lemma fold_results:
  assumes "\<And>x st. results (f x st) = results st @ R x"
  shows "results (fold f xs st) = results st @ concat (map R xs)"
  using assms by (induction xs arbitrary: st) simp_all

lemma fold_calls:
  assumes "\<And>x st. calls (f x st) = calls st @ C x"
  shows "calls (fold f xs st) = calls st @ concat (map C xs)"
  using assms by (induction xs arbitrary: st) simp_all

lemma fst_matchesRequest: "fst (matchesRequest r b x st) = accepts r b x"
  by (simp add: matchesRequest_def accepts_def split: option.splits)

lemma results_matchesRequest: "results (snd (matchesRequest r b x st)) = results st"
  by (simp add: matchesRequest_def split: option.splits)

lemma calls_matchesRequest: "calls (snd (matchesRequest r b x st)) = calls st @ matcherCalls r b x"
  by (simp add: matchesRequest_def matcherCalls_def split: option.splits)

lemma results_beforePropertyStep:
  "results (beforePropertyStep I args r A bo ct b e st)
     = results st @ beforePropertyResults I args r A bo ct b e"
  by (cases e) (simp add: beforePropertyStep_def beforePropertyResults_def Let_def)

lemma calls_beforePropertyStep:
  "calls (beforePropertyStep I args r A bo ct b e st)
     = calls st @ [beforePropertyCall args A ct e]"
  by (cases e) (simp add: beforePropertyStep_def beforePropertyCall_def Let_def)

lemma results_beforeBodyStep:
  "results (beforeBodyStep I args r A bo ct b st)
     = results st @ beforeBodyResults I args r A bo ct b"
  by (simp add: beforeBodyStep_def beforeBodyResults_def Let_def)

lemma calls_beforeBodyStep:
  "calls (beforeBodyStep I args r A bo ct b st)
     = calls st @ [BodyRunBefore A b (bodyChange (request args) ct)]"
  by (simp add: beforeBodyStep_def Let_def)

lemma results_afterBodyStep:
  "results (afterBodyStep I args r A ao ct mb a st)
     = results st @ afterBodyResults I args r A ao ct mb a"
  by (simp add: afterBodyStep_def afterBodyResults_def Let_def)

lemma calls_afterBodyStep:
  "calls (afterBodyStep I args r A ao ct mb a st)
     = calls st @ [BodyRunAfter A mb a (bodyChange (request args) ct)]"
  by (simp add: afterBodyStep_def Let_def)

lemma results_beforeRequestStep:
  "results (beforeRequestStep I args r A bo x ct st)
     = results st @ beforeRequestResults I args r A bo x ct"
proof (cases "createRequest I (request args) ct Before (beforeApiSpec args)")
  case None
  then show ?thesis
    by (simp add: beforeRequestStep_def beforeRequestResults_def)
next
  case (Some b)
  obtain ok st1 where m: "matchesRequest r b x st = (ok, st1)"
    by (cases "matchesRequest r b x st")
  have ok: "ok = accepts r b x"
    using fst_matchesRequest [of r b x st] m by simp
  have st1: "results st1 = results st"
    using results_matchesRequest [of r b x st] m by simp
  show ?thesis
    using Some m ok st1
    by (simp add: beforeRequestStep_def beforeRequestResults_def results_beforeBodyStep
        fold_results [where R = "beforePropertyResults I args r A bo ct b",
          OF results_beforePropertyStep])
qed

lemma calls_beforeRequestStep:
  "calls (beforeRequestStep I args r A bo x ct st)
     = calls st @ beforeRequestCalls I args r A x ct"
proof (cases "createRequest I (request args) ct Before (beforeApiSpec args)")
  case None
  then show ?thesis
    by (simp add: beforeRequestStep_def beforeRequestCalls_def)
next
  case (Some b)
  obtain ok st1 where m: "matchesRequest r b x st = (ok, st1)"
    by (cases "matchesRequest r b x st")
  have ok: "ok = accepts r b x"
    using fst_matchesRequest [of r b x st] m by simp
  have st1: "calls st1 = calls st @ matcherCalls r b x"
    using calls_matchesRequest [of r b x st] m by simp
  show ?thesis
    using Some m ok st1
    by (simp add: beforeRequestStep_def beforeRequestCalls_def calls_beforeBodyStep
        fold_calls [where C = "\<lambda>e. [beforePropertyCall args A ct e]",
          OF calls_beforePropertyStep])
qed

lemma results_afterPropertyStep:
  "results (afterPropertyStep I args r A ao ct mb a e st)
     = results st @ afterPropertyResults I args r A ao ct mb a e"
  by (cases e) (simp add: afterPropertyStep_def afterPropertyResults_def Let_def)

lemma calls_afterPropertyStep:
  "calls (afterPropertyStep I args r A ao ct mb a e st)
     = calls st @ [afterPropertyCall args A ct mb e]"
  by (cases e) (simp add: afterPropertyStep_def afterPropertyCall_def Let_def)

lemma results_afterRequestStep:
  "results (afterRequestStep I args r A ao x ct st)
     = results st @ afterRequestResults I args r A ao x ct"
proof (cases "createRequest I (request args) ct After (afterApiSpec args)")
  case None
  then show ?thesis
    by (simp add: afterRequestStep_def afterRequestResults_def)
next
  case (Some a)
  obtain ok st1 where m: "matchesRequest r a x st = (ok, st1)"
    by (cases "matchesRequest r a x st")
  have ok: "ok = accepts r a x"
    using fst_matchesRequest [of r a x st] m by simp
  have st1: "results st1 = results st"
    using results_matchesRequest [of r a x st] m by simp
  show ?thesis
    using Some m ok st1
    by (simp add: afterRequestStep_def afterRequestResults_def Let_def results_afterBodyStep
        fold_results [where R = "afterPropertyResults I args r A ao ct
            (createRequest I (request args) ct Before (beforeApiSpec args)) a",
          OF results_afterPropertyStep])
qed

lemma calls_afterRequestStep:
  "calls (afterRequestStep I args r A ao x ct st)
     = calls st @ afterRequestCalls I args r A x ct"
proof (cases "createRequest I (request args) ct After (afterApiSpec args)")
  case None
  then show ?thesis
    by (simp add: afterRequestStep_def afterRequestCalls_def)
next
  case (Some a)
  obtain ok st1 where m: "matchesRequest r a x st = (ok, st1)"
    by (cases "matchesRequest r a x st")
  have ok: "ok = accepts r a x"
    using fst_matchesRequest [of r a x st] m by simp
  have st1: "calls st1 = calls st @ matcherCalls r a x"
    using calls_matchesRequest [of r a x st] m by simp
  show ?thesis
    using Some m ok st1
    by (simp add: afterRequestStep_def afterRequestCalls_def Let_def calls_afterBodyStep
        fold_calls [where C = "\<lambda>e. [afterPropertyCall args A ct
            (createRequest I (request args) ct Before (beforeApiSpec args)) e]",
          OF calls_afterPropertyStep])
qed

lemma results_beforePass:
  "results (beforePass I args bo r st) = results st @ beforePassResults I args bo r"
  by (cases bo)
    (simp_all add: beforePass_def beforePassResults_def Let_def beforeContext_def
      registered_def fold_results [OF results_beforeRequestStep])

lemma calls_beforePass:
  "calls (beforePass I args bo r st) = calls st @ beforePassCalls I args bo r"
  by (cases bo)
    (simp_all add: beforePass_def beforePassCalls_def Let_def beforeContext_def
      registered_def fold_calls [OF calls_beforeRequestStep])

lemma results_afterPass:
  "results (afterPass I args ao r st) = results st @ afterPassResults I args ao r"
  by (cases ao)
    (simp_all add: afterPass_def afterPassResults_def Let_def afterContext_def
      registered_def fold_results [OF results_afterRequestStep])

lemma calls_afterPass:
  "calls (afterPass I args ao r st) = calls st @ afterPassCalls I args ao r"
  by (cases ao)
    (simp_all add: afterPass_def afterPassCalls_def Let_def afterContext_def
      registered_def fold_calls [OF calls_afterRequestStep])

lemma results_requestRuleStep:
  "results (requestRuleStep I args bo ao r st)
     = results st @ (beforePassResults I args bo r @ afterPassResults I args ao r)"
  by (simp add: requestRuleStep_def results_beforePass results_afterPass)

lemma calls_requestRuleStep:
  "calls (requestRuleStep I args bo ao r st)
     = calls st @ (beforePassCalls I args bo r @ afterPassCalls I args ao r)"
  by (simp add: requestRuleStep_def calls_beforePass calls_afterPass)

lemma results_runRequestRulesFrom:
  "results (runRequestRulesFrom I args)
     = concat (map (\<lambda>r. beforePassResults I args
                           (createOperation I (Args.operation args) Before (beforeApiSpec args)) r
                        @ afterPassResults I args
                           (createOperation I (Args.operation args) After (afterApiSpec args)) r)
                 (getRequestRules I (Args.rules args)))"
  by (simp add: runRequestRulesFrom_def Let_def fold_results [OF results_requestRuleStep])

lemma calls_runRequestRulesFrom:
  "calls (runRequestRulesFrom I args)
     = concat (map (\<lambda>r. beforePassCalls I args
                           (createOperation I (Args.operation args) Before (beforeApiSpec args)) r
                        @ afterPassCalls I args
                           (createOperation I (Args.operation args) After (afterApiSpec args)) r)
                 (getRequestRules I (Args.rules args)))"
  by (simp add: runRequestRulesFrom_def Let_def fold_calls [OF calls_requestRuleStep])

subsection \<open>Flattening\<close>

lemma fold_append:
  assumes "\<And>x acc. f x acc = acc @ g x"
  shows "fold f xs acc = acc @ concat (map g xs)"
  using assms by (induction xs arbitrary: acc) simp_all

lemma pushRulesetRule_append:
  "pushRulesetRule I rs m acc
     = acc @ (case m of IsRequestRule r \<Rightarrow> [rulesetRule I rs r] | OtherRule \<Rightarrow> [])"
  by (simp add: pushRulesetRule_def split: Rule.splits)

lemma concat_requestRulesOf:
  "concat (map (\<lambda>m. case m of IsRequestRule r \<Rightarrow> [f r] | OtherRule \<Rightarrow> []) ms)
     = map f (requestRulesOf ms)"
  by (induction ms rule: requestRulesOf.induct) simp_all

lemma pushRuleOrRuleset_append:
  "pushRuleOrRuleset I item acc = acc @ expand I item"
  by (simp add: pushRuleOrRuleset_def expand_def Let_def
      fold_append [OF pushRulesetRule_append] concat_requestRulesOf
      split: Rules.splits Rule.splits)

lemma getRequestRules_expand:
  "getRequestRules I rules' = concat (map (expand I) rules')"
  by (simp add: getRequestRules_def fold_append [OF pushRuleOrRuleset_append])

lemma rulesetRule_flatten:
  "rulesetRule (I\<lparr> createRulesetMatcher := createRulesetMatcherSpec \<rparr>) rs r
     = flattenRulesetRule I rs r"
  by (simp add: rulesetRule_def flattenRulesetRule_def createRulesetMatcherSpec_def
      orElse_def RequestRule.defs FlatRule.defs)

lemma expand_flatten:
  "expand (I\<lparr> createRulesetMatcher := createRulesetMatcherSpec \<rparr>) item = flatten I item"
proof (cases item)
  case (ARule m)
  then show ?thesis
    by (cases m) (simp_all add: expand_def RequestRule.defs FlatRule.defs)
next
  case (ARuleset rs)
  then show ?thesis
    by (simp add: expand_def rulesetRule_flatten)
qed

lemma name_rulesetRule: "RequestRule.name (rulesetRule I rs r) = RequestRule.name r"
  by (simp add: rulesetRule_def RequestRule.defs)

lemma names_expand: "map RequestRule.name (expand I item) = declaredNames item"
proof (cases item)
  case (ARule m)
  then show ?thesis
    by (cases m) (simp_all add: expand_def RequestRule.defs)
next
  case (ARuleset rs)
  then show ?thesis
    by (simp add: expand_def name_rulesetRule comp_def)
qed

lemma names_getRequestRules:
  "map RequestRule.name (getRequestRules I rules')
     = concat (map declaredNames rules')"
  by (simp add: getRequestRules_expand map_concat comp_def names_expand)

subsection \<open>The executor of the specification\<close>

lemma pushed_append: "results st' = results st @ rs \<Longrightarrow> pushed st st' = rs"
  by (simp add: pushed_def)

lemma runEach_map:
  "runEach kind c i regs out
     = out @ map (\<lambda>reg. runAssertion kind c (fst reg) (snd reg i)) regs"
proof -
  have "fold (\<lambda>reg acc. acc @ [runAssertion kind c (fst reg) (snd reg i)]) regs out
          = out @ concat (map (\<lambda>reg. [runAssertion kind c (fst reg) (snd reg i)]) regs)"
    by (rule fold_append) simp
  also have "concat (map (\<lambda>reg. [runAssertion kind c (fst reg) (snd reg i)]) regs)
          = map (\<lambda>reg. runAssertion kind c (fst reg) (snd reg i)) regs"
    by (induction regs) simp_all
  finally show ?thesis
    by (simp add: runEach_def)
qed

lemma runBeforePass_map:
  "runBeforePass regs i c
     = map (\<lambda>reg. runAssertion requirement c (fst reg) (snd reg i)) (requirements regs)
       @ (if classification c = Some Removed
          then map (\<lambda>reg. runAssertion removed c (fst reg) (snd reg i)) (removeds regs)
          else [])"
  by (simp add: runBeforePass_def runEach_map Let_def)

lemma runAfterPass_map:
  "runAfterPass regs mb i c
     = map (\<lambda>reg. runAssertion requirement c (fst reg) (snd reg i)) (requirements regs)
       @ (if classification c = Some Added
          then map (\<lambda>reg. runAssertion added c (fst reg) (snd reg i)) (addeds regs)
          else [])
       @ (case mb of
            None \<Rightarrow> []
          | Some b \<Rightarrow>
              if classification c = Some Changed
              then map (\<lambda>reg. runAssertion changed c (fst reg) (snd reg b i)) (changeds regs)
              else [])"
  by (simp add: runAfterPass_def runEach_map Let_def comp_def
      split: option.splits)

lemma condition_runAssertion:
  "AssertionResult.condition (runAssertion kind c d outcome) = d"
  by (simp add: runAssertion_def split: Outcome.splits)

lemma verdict_runAssertion:
  "(AssertionResult.passed (runAssertion kind c d outcome),
    AssertionResult.error (runAssertion kind c d outcome)) = verdict outcome"
  by (cases outcome) (simp_all add: runAssertion_def)

subsection \<open>The matcher and the calls of a pass\<close>

lemma rejects_matcher:
  "RequestRule.matches r = Some m \<Longrightarrow> \<not> m b x \<Longrightarrow> \<not> accepts r b x"
  by (simp add: accepts_def)

lemma results_beforeRequestStep_rejected:
  assumes "createRequest I (request args) ct Before (beforeApiSpec args) = Some b"
    and "\<not> accepts r b x"
  shows "results (beforeRequestStep I args r A bo x ct st) = results st"
  using assms by (simp add: results_beforeRequestStep beforeRequestResults_def)

lemma results_afterRequestStep_rejected:
  assumes "createRequest I (request args) ct After (afterApiSpec args) = Some a"
    and "\<not> accepts r a x"
  shows "results (afterRequestStep I args r A ao x ct st) = results st"
  using assms by (simp add: results_afterRequestStep afterRequestResults_def)

lemma matcherCalls_rejected: "\<not> accepts r b x \<Longrightarrow> matcherCalls r b x = [Matches b x]"
  by (simp add: accepts_def matcherCalls_def split: option.splits)

lemma isMatches_matcherCalls: "filter isMatches (matcherCalls r b x) = matcherCalls r b x"
  by (simp add: matcherCalls_def split: option.splits)

lemma isMatches_beforePropertyCalls:
  "filter isMatches (map (beforePropertyCall args A ct) ps) = []"
  by (induction ps) (simp_all add: beforePropertyCall_def)

lemma isMatches_afterPropertyCalls:
  "filter isMatches (map (afterPropertyCall args A ct mb) ps) = []"
  by (induction ps) (simp_all add: afterPropertyCall_def)

lemma before_rejected:
  assumes "createRequest I (request args) ct Before (beforeApiSpec args) = Some b"
    and "\<not> accepts r b x"
  shows "pushed st (beforeRequestStep I args r A bo x ct st) = []
       \<and> calls (beforeRequestStep I args r A bo x ct st) = calls st @ [Matches b x]"
  using assms
  by (simp add: pushed_def results_beforeRequestStep calls_beforeRequestStep
      beforeRequestResults_def beforeRequestCalls_def matcherCalls_rejected)

lemma before_accepted:
  assumes "createRequest I (request args) ct Before (beforeApiSpec args) = Some b"
    and "accepts r b x"
  shows "pushed st (beforeRequestStep I args r A bo x ct st)
           = beforeBodyResults I args r A bo ct b
             @ concat (map (beforePropertyResults I args r A bo ct b) (properties b))
       \<and> calls (beforeRequestStep I args r A bo x ct st)
           = calls st @ matcherCalls r b x
             @ BodyRunBefore A b (bodyChange (request args) ct)
               # map (beforePropertyCall args A ct) (properties b)"
  using assms
  by (simp add: pushed_def results_beforeRequestStep calls_beforeRequestStep
      beforeRequestResults_def beforeRequestCalls_def)

lemma after_rejected:
  assumes "createRequest I (request args) ct After (afterApiSpec args) = Some a"
    and "\<not> accepts r a x"
  shows "pushed st (afterRequestStep I args r A ao x ct st) = []
       \<and> calls (afterRequestStep I args r A ao x ct st) = calls st @ [Matches a x]"
  using assms
  by (simp add: pushed_def results_afterRequestStep calls_afterRequestStep
      afterRequestResults_def afterRequestCalls_def matcherCalls_rejected)

lemma after_accepted:
  assumes "createRequest I (request args) ct After (afterApiSpec args) = Some a"
    and "accepts r a x"
  shows "pushed st (afterRequestStep I args r A ao x ct st)
           = afterBodyResults I args r A ao ct
               (createRequest I (request args) ct Before (beforeApiSpec args)) a
             @ concat
                 (map (afterPropertyResults I args r A ao ct
                         (createRequest I (request args) ct Before (beforeApiSpec args)) a)
                    (properties a))
       \<and> calls (afterRequestStep I args r A ao x ct st)
           = calls st @ matcherCalls r a x
             @ BodyRunAfter A (createRequest I (request args) ct Before (beforeApiSpec args))
                 a (bodyChange (request args) ct)
               # map (afterPropertyCall args A ct
                        (createRequest I (request args) ct Before (beforeApiSpec args)))
                   (properties a)"
  using assms
  by (simp add: pushed_def results_afterRequestStep calls_afterRequestStep
      afterRequestResults_def afterRequestCalls_def)

lemma isRuleBody_matcherCalls: "filter isRuleBody (matcherCalls r b x) = []"
  by (simp add: matcherCalls_def split: option.splits)

lemma isRuleBody_beforePropertyCalls:
  "filter isRuleBody (map (beforePropertyCall args A ct) ps) = []"
  by (induction ps) (simp_all add: beforePropertyCall_def)

lemma isRuleBody_afterPropertyCalls:
  "filter isRuleBody (map (afterPropertyCall args A ct mb) ps) = []"
  by (induction ps) (simp_all add: afterPropertyCall_def)

lemma isRuleBody_beforeRequestCalls:
  "filter isRuleBody (beforeRequestCalls I args r A x ct) = []"
  by (simp add: beforeRequestCalls_def isRuleBody_matcherCalls isRuleBody_beforePropertyCalls
      split: option.splits)

lemma isRuleBody_afterRequestCalls:
  "filter isRuleBody (afterRequestCalls I args r A x ct) = []"
  by (simp add: afterRequestCalls_def isRuleBody_matcherCalls isRuleBody_afterPropertyCalls
      split: option.splits)

lemma filter_concat_empty:
  assumes "\<And>x. filter P (f x) = []"
  shows "filter P (concat (map f xs)) = []"
  using assms by (induction xs) simp_all

lemma isRuleBody_beforePassRest:
  "filter isRuleBody (concat (map (beforeRequestCalls I args r A x) cts)) = []"
  by (rule filter_concat_empty) (rule isRuleBody_beforeRequestCalls)

lemma isRuleBody_afterPassRest:
  "filter isRuleBody (concat (map (afterRequestCalls I args r A x) cts)) = []"
  by (rule filter_concat_empty) (rule isRuleBody_afterRequestCalls)

lemma beforePassCalls_Some:
  "beforePassCalls I args (Some bo) r
     = RuleBody (createRequestAssertions I)
         (createBeforeOperationContext I bo (customRuleContext args))
       # concat
           (map (beforeRequestCalls I args r
                   (rule r (createRequestAssertions I)
                      (createBeforeOperationContext I bo (customRuleContext args)))
                   (createBeforeOperationContext I bo (customRuleContext args)))
              (map fst (bodies (request args))))"
  by (simp add: beforePassCalls_def beforeContext_def registered_def)

lemma afterPassCalls_Some:
  "afterPassCalls I args (Some ao) r
     = RuleBody (createRequestAssertions I)
         (createAfterOperationContext I ao (customRuleContext args)
            (map_option changeType (EndpointNode.change (Args.operation args))))
       # concat
           (map (afterRequestCalls I args r
                   (rule r (createRequestAssertions I)
                      (createAfterOperationContext I ao (customRuleContext args)
                         (map_option changeType (EndpointNode.change (Args.operation args)))))
                   (createAfterOperationContext I ao (customRuleContext args)
                      (map_option changeType (EndpointNode.change (Args.operation args)))))
              (map fst (bodies (request args))))"
  by (simp add: afterPassCalls_def afterContext_def registered_def)

lemma beforePass_once:
  "take 1 (beforePassCalls I args (Some bo) r)
     = [RuleBody (createRequestAssertions I)
          (createBeforeOperationContext I bo (customRuleContext args))]
   \<and> filter isRuleBody (drop 1 (beforePassCalls I args (Some bo) r)) = []"
  by (simp add: beforePassCalls_Some isRuleBody_beforePassRest del: map_map)

lemma afterPass_once:
  "take 1 (afterPassCalls I args (Some ao) r)
     = [RuleBody (createRequestAssertions I)
          (createAfterOperationContext I ao (customRuleContext args)
             (map_option changeType (EndpointNode.change (Args.operation args))))]
   \<and> filter isRuleBody (drop 1 (afterPassCalls I args (Some ao) r)) = []"
  by (simp add: afterPassCalls_Some isRuleBody_afterPassRest del: map_map)

lemma beforeRequestStep_absent:
  "createRequest I (request args) ct Before (beforeApiSpec args) = None
     \<Longrightarrow> beforeRequestStep I args r A bo x ct st = st"
  by (simp add: beforeRequestStep_def)

lemma afterRequestStep_absent:
  "createRequest I (request args) ct After (afterApiSpec args) = None
     \<Longrightarrow> afterRequestStep I args r A ao x ct st = st"
  by (simp add: afterRequestStep_def)

lemma afterRequestStep_calls_accepted:
  assumes "createRequest I (request args) ct After (afterApiSpec args) = Some a"
    and "accepts r a x"
  shows "calls (afterRequestStep I args r A ao x ct st)
           = calls st @ matcherCalls r a x
             @ BodyRunAfter A (createRequest I (request args) ct Before (beforeApiSpec args))
                 a (bodyChange (request args) ct)
               # map (\<lambda>entry.
                        PropertyRunAfter A
                          (maybeBeforeProperty
                             (createRequest I (request args) ct Before (beforeApiSpec args))
                             (fst entry))
                          (snd entry) (propertyChange (request args) ct (fst entry)))
                   (properties a)"
proof -
  have "afterPropertyCall args A ct
          (createRequest I (request args) ct Before (beforeApiSpec args))
        = (\<lambda>entry.
             PropertyRunAfter A
               (maybeBeforeProperty
                  (createRequest I (request args) ct Before (beforeApiSpec args)) (fst entry))
               (snd entry) (propertyChange (request args) ct (fst entry)))"
    by (rule ext) (simp add: afterPropertyCall_def)
  with after_accepted [OF assms, where A = A and ao = ao and st = st] show ?thesis
    by simp
qed

subsection \<open>Results of a rule, and evaluation of the samples\<close>

lemmas sample_defs = sampleImports_def sampleArgs_def sampleDocument_def sampleRequest_def
  jsonBody_def xmlBody_def usersOperation_def lookAtMe_def xmlOnlyFlat_def xmlOnly_def
  usersContext_def emptyRun_def noRequiredRemoval_def breakingChanges_def
  createBeforeOperationContextSpec_def createAfterOperationContextSpec_def
  createRequestAssertionsSpec_def noRegistrations_def addRequirement_def
  RequestRule.defs FlatRule.defs

lemma rule_results_all:
  assumes bodyResult: "\<And>ar b opn. P (createRequestBodyResult I ar b opn r)"
    and propertyResult: "\<And>ar p b opn. P (createRequestPropertyResult I ar p b opn r)"
  shows "\<forall>res \<in> set (beforePassResults I args bo r @ afterPassResults I args ao r). P res"
proof -
  have b: "\<forall>res \<in> set (beforeRequestResults I args r A opn x ct). P res" for A opn x ct
    using bodyResult propertyResult
    by (auto simp: beforeRequestResults_def beforeBodyResults_def beforePropertyResults_def
        split: option.splits if_splits)
  have a: "\<forall>res \<in> set (afterRequestResults I args r A opn x ct). P res" for A opn x ct
    using bodyResult propertyResult
    by (auto simp: afterRequestResults_def afterBodyResults_def afterPropertyResults_def
        split: option.splits if_splits)
  show ?thesis
    using a b
    by (auto simp: beforePassResults_def afterPassResults_def split: option.splits)
qed

lemma pushed_requestRuleStep:
  "pushed st (requestRuleStep I args bo ao r st)
     = beforePassResults I args bo r @ afterPassResults I args ao r"
  by (simp add: pushed_def results_requestRuleStep)

lemma aliases_rulesetRule:
  "aliases (rulesetRule I rs r) = getRuleAliases I (Ruleset.name rs) (RequestRule.name r)"
  by (simp add: rulesetRule_def RequestRule.defs FlatRule.defs)

lemmas run_defs = runRequestRules_def results_runRequestRulesFrom getRequestRules_expand
  expand_def pushed_requestRuleStep
  beforePassResults_def afterPassResults_def beforeRequestResults_def afterRequestResults_def
  beforeBodyResults_def afterBodyResults_def beforePropertyResults_def afterPropertyResults_def
  accepts_def rulesetRule_def createRulesetMatcherSpec_def getRuleAliasesSpec_def orElse_def
  registered_def beforeContext_def afterContext_def runBeforePass_def runAfterPass_def
  runEach_def runAssertion_def classification_def bodyChange_def propertyChange_def
  maybeBeforeProperty_def createRequestBodyResult_def createRequestPropertyResult_def Let_def

lemma pushed_beforeBodyStep:
  "pushed st (beforeBodyStep I args r A bo ct b st) = beforeBodyResults I args r A bo ct b"
  by (simp add: pushed_def results_beforeBodyStep)

lemma pushed_afterBodyStep:
  "pushed st (afterBodyStep I args r A ao ct mb a st) = afterBodyResults I args r A ao ct mb a"
  by (simp add: pushed_def results_afterBodyStep)

lemma pushed_beforePropertyStep:
  "pushed st (beforePropertyStep I args r A bo ct b e st)
     = beforePropertyResults I args r A bo ct b e"
  by (simp add: pushed_def results_beforePropertyStep)

lemma pushed_afterPropertyStep:
  "pushed st (afterPropertyStep I args r A ao ct mb a e st)
     = afterPropertyResults I args r A ao ct mb a e"
  by (simp add: pushed_def results_afterPropertyStep)

lemma length_runBeforePass:
  "length (runBeforePass regs i c)
     = length (requirements regs)
       + (if classification c = Some Removed then length (removeds regs) else 0)"
  by (simp add: runBeforePass_map)

lemma length_runAfterPass:
  "length (runAfterPass regs mb i c)
     = length (requirements regs)
       + (if classification c = Some Added then length (addeds regs) else 0)
       + (if classification c = Some Changed \<and> mb \<noteq> None then length (changeds regs) else 0)"
  by (simp add: runAfterPass_map split: option.splits)

lemma reported_body:
  "reported (createRequestBodyResult I (runAssertion kind c d outcome) b opn r) = verdict outcome"
  by (cases outcome) (simp_all add: reported_def createRequestBodyResult_def runAssertion_def)

lemma reported_property:
  "reported (createRequestPropertyResult I (runAssertion kind c d outcome) p b opn r)
     = verdict outcome"
  by (cases outcome)
    (simp_all add: reported_def createRequestPropertyResult_def runAssertion_def)

lemma printWarnings_append: "printWarnings ws console = console @ ws"
proof -
  have "fold (\<lambda>warning out. out @ [warning]) ws console
          = console @ concat (map (\<lambda>w. [w]) ws)"
    by (rule fold_append) simp
  also have "concat (map (\<lambda>w. [w]) ws) = ws"
    by (induction ws) simp_all
  finally show ?thesis
    by (simp add: printWarnings_def)
qed

subsection \<open>Upper case\<close>

lemma toUpperCase_get: "toUpperCase ''get'' = ''GET''"
  by code_simp

section \<open>The claims\<close>

subsection \<open>C1: The rule body, once in each pass\<close>

text \<open>
  Claim C1, as amended. For a flattened rule, the calls of \<open>requestRuleStep\<close> are those of
  the before pass followed by those of the after pass. A pass runs if and only if the
  operation exists on its side, and then its first call is the rule body, on the collector that
  \<^verbatim>\<open>createRequestAssertions()\<close> has just returned and with the context of the pass; no other
  call of the pass is a call of the rule body, so every matcher call comes after it. With
  no operation on its side a pass calls nothing. For a content type with no before-request
  the before pass does nothing, and with no after-request the after pass does nothing. With
  an after-request that the rule accepts, \<^verbatim>\<open>runAfter\<close> is called on the body with the
  before-request of the same content type, if there is one, and on each property with the
  property of the same key of the before-request, if there is one; \<open>None\<close> stands for
  \<^verbatim>\<open>null\<close>.
\<close>

theorem rule_body_once_per_pass:
  "calls (requestRuleStep I args beforeOperation afterOperation requestRule st)
     = calls st @ beforePassCalls I args beforeOperation requestRule
       @ afterPassCalls I args afterOperation requestRule
   \<and> beforePassCalls I args None requestRule = []
   \<and> afterPassCalls I args None requestRule = []
   \<and> take 1 (beforePassCalls I args (Some beforeOp) requestRule)
       = [RuleBody (createRequestAssertions I)
            (createBeforeOperationContext I beforeOp (customRuleContext args))]
   \<and> filter isRuleBody (drop 1 (beforePassCalls I args (Some beforeOp) requestRule)) = []
   \<and> take 1 (afterPassCalls I args (Some afterOp) requestRule)
       = [RuleBody (createRequestAssertions I)
            (createAfterOperationContext I afterOp (customRuleContext args)
               (map_option changeType (EndpointNode.change (Args.operation args))))]
   \<and> filter isRuleBody (drop 1 (afterPassCalls I args (Some afterOp) requestRule)) = []
   \<and> (createRequest I (request args) contentType' Before (beforeApiSpec args) = None
        \<longrightarrow> beforeRequestStep I args requestRule requestAssertions beforeOp
              beforeRulesContext contentType' st = st)
   \<and> (createRequest I (request args) contentType' After (afterApiSpec args) = None
        \<longrightarrow> afterRequestStep I args requestRule requestAssertions afterOp
              afterRulesContext contentType' st = st)
   \<and> (createRequest I (request args) contentType' After (afterApiSpec args) = Some afterRequest
        \<and> accepts requestRule afterRequest afterRulesContext
        \<longrightarrow> calls (afterRequestStep I args requestRule requestAssertions afterOp
                afterRulesContext contentType' st)
            = calls st @ matcherCalls requestRule afterRequest afterRulesContext
              @ BodyRunAfter requestAssertions
                  (createRequest I (request args) contentType' Before (beforeApiSpec args))
                  afterRequest (bodyChange (request args) contentType')
                # map (\<lambda>entry.
                         PropertyRunAfter requestAssertions
                           (maybeBeforeProperty
                              (createRequest I (request args) contentType' Before
                                 (beforeApiSpec args))
                              (fst entry))
                           (snd entry)
                           (propertyChange (request args) contentType' (fst entry)))
                    (properties afterRequest))
   \<and> maybeBeforeProperty None key = None
   \<and> maybeBeforeProperty (Some beforeRequest) key = map_of (properties beforeRequest) key"
proof -
  have 1: "calls (requestRuleStep I args beforeOperation afterOperation requestRule st)
     = calls st @ beforePassCalls I args beforeOperation requestRule
       @ afterPassCalls I args afterOperation requestRule"
    by (simp add: calls_requestRuleStep)
  have 2: "beforePassCalls I args None requestRule = []"
    "afterPassCalls I args None requestRule = []"
    by (simp_all add: beforePassCalls_def afterPassCalls_def)
  have 3: "maybeBeforeProperty None key = None"
    "maybeBeforeProperty (Some beforeRequest) key = map_of (properties beforeRequest) key"
    by (simp_all add: maybeBeforeProperty_def)
  show ?thesis
    using 1 2 3 beforePass_once [of I args beforeOp requestRule]
      afterPass_once [of I args afterOp requestRule]
      beforeRequestStep_absent [of I args contentType' requestRule requestAssertions
        beforeOp beforeRulesContext st]
      afterRequestStep_absent [of I args contentType' requestRule requestAssertions
        afterOp afterRulesContext st]
      afterRequestStep_calls_accepted [of I args contentType' afterRequest requestRule
        afterRulesContext requestAssertions afterOp st]
    by blast
qed

text \<open>
  An instance of C1, with the rule that accepts \<^verbatim>\<open>application/xml\<close> only: a content
  type that neither document has changes nothing; for the accepted body \<^verbatim>\<open>runAfter\<close>
  receives the before-request; the first call of a rule is its body on the empty collector.
\<close>

theorem rule_body_once_per_pass_witness:
  "beforeRequestStep sampleImports (sampleArgs []) xmlOnlyFlat
     (registered sampleImports xmlOnlyFlat usersContext) usersOperation usersContext
     ''text/plain'' emptyRun = emptyRun
   \<and> afterRequestStep sampleImports (sampleArgs []) xmlOnlyFlat
     (registered sampleImports xmlOnlyFlat usersContext) usersOperation usersContext
     ''text/plain'' emptyRun = emptyRun
   \<and> calls
     (afterRequestStep sampleImports (sampleArgs []) xmlOnlyFlat
        (registered sampleImports xmlOnlyFlat usersContext) usersOperation usersContext
        ''application/xml'' emptyRun)
     = [Matches xmlBody usersContext,
        BodyRunAfter (registered sampleImports xmlOnlyFlat usersContext) (Some xmlBody)
          xmlBody None]
   \<and> take 1 (calls (requestRuleStep sampleImports (sampleArgs []) (Some usersOperation) None
          xmlOnlyFlat emptyRun))
     = [RuleBody createRequestAssertionsSpec usersContext]"
  using rule_body_once_per_pass [where requestRule = xmlOnlyFlat
      and I = sampleImports and args = "sampleArgs []" and contentType' = "''text/plain''"
      and beforeRulesContext = usersContext and afterRulesContext = usersContext
      and requestAssertions = "registered sampleImports xmlOnlyFlat usersContext"
      and beforeOp = usersOperation and afterOp = usersOperation
      and beforeOperation = "Some usersOperation" and afterOperation = None
      and st = emptyRun]
    rule_body_once_per_pass [where requestRule = xmlOnlyFlat
      and I = sampleImports and args = "sampleArgs []" and contentType' = "''application/xml''"
      and afterRequest = xmlBody
      and beforeRulesContext = usersContext and afterRulesContext = usersContext
      and requestAssertions = "registered sampleImports xmlOnlyFlat usersContext"
      and beforeOp = usersOperation and afterOp = usersOperation
      and st = emptyRun]
  by (simp add: sample_defs registered_def accepts_def matcherCalls_def bodyChange_def)

text \<open>
  Claim C1 as stated fails: for an operation that only the document after has, the rule body
  is called once in all, with the after-context; there is no call with a before-context.
\<close>

theorem added_operation_one_body_call:
  "createOperation sampleImports
     (Args.operation (addedOperationArgs [ARule (IsRequestRule xmlOnly)])) Before
     (beforeApiSpec (addedOperationArgs [ARule (IsRequestRule xmlOnly)])) = None
   \<and> getRequestRules sampleImports [ARule (IsRequestRule xmlOnly)] = [xmlOnlyFlat]
   \<and> filter isRuleBody
       (calls (runRequestRulesFrom sampleImports
          (addedOperationArgs [ARule (IsRequestRule xmlOnly)])))
     = [RuleBody createRequestAssertionsSpec
          (createAfterOperationContextSpec usersOperation () (Some Added))]
   \<and> calls (runRequestRulesFrom sampleImports
          (addedOperationArgs [ARule (IsRequestRule xmlOnly)]))
     = [RuleBody createRequestAssertionsSpec
          (createAfterOperationContextSpec usersOperation () (Some Added)),
        Matches jsonBody (createAfterOperationContextSpec usersOperation () (Some Added)),
        Matches xmlBody (createAfterOperationContextSpec usersOperation () (Some Added)),
        BodyRunAfter
          (registered sampleImports xmlOnlyFlat
             (createAfterOperationContextSpec usersOperation () (Some Added)))
          None xmlBody None]"
  by (simp add: calls_runRequestRulesFrom getRequestRules_expand expand_def
      beforePassCalls_def afterPassCalls_def afterRequestCalls_def afterPropertyCall_def
      matcherCalls_def accepts_def afterContext_def registered_def bodyChange_def
      addedOperationArgs_def sample_defs)

subsection \<open>C2: Flattening\<close>

text \<open>
  Claim C2. With the matcher helper that forms the AND, \<open>getRequestRules\<close> is the
  flattening of the specification: the declared items are expanded in declaration order,
  a ruleset in place; a standalone request rule is kept field by field, with no aliases; a
  rule of a ruleset gets the AND of the ruleset's matcher and its own, and its own docs
  link if it has one (a non-empty string), otherwise the ruleset's, which may be absent.
\<close>

theorem getRequestRules_flatten:
  "getRequestRules (I\<lparr> createRulesetMatcher := createRulesetMatcherSpec \<rparr>) rules'
     = concat (map (flatten I) rules')"
proof -
  have "expand (I\<lparr> createRulesetMatcher := createRulesetMatcherSpec \<rparr>) = flatten I"
    by (rule ext) (rule expand_flatten)
  then show ?thesis
    by (simp add: getRequestRules_expand)
qed

text \<open>
  An instance of C2: a rule of another kind is skipped, the ruleset is expanded in place
  with its docs link as the fallback and the alias of its rule, and the standalone rule
  follows with no alias.
\<close>

theorem getRequestRules_flatten_witness:
  "map RequestRule.name
     (getRequestRules sampleImports
        [ARule OtherRule, ARuleset breakingChanges, ARule (IsRequestRule xmlOnly)])
     = [''no-required-removal'', ''request'']
   \<and> map RequestRule.docsLink
     (getRequestRules sampleImports
        [ARule OtherRule, ARuleset breakingChanges, ARule (IsRequestRule xmlOnly)])
     = [Some ''https://example.com/rules'', None]
   \<and> map aliases
     (getRequestRules sampleImports
        [ARule OtherRule, ARuleset breakingChanges, ARule (IsRequestRule xmlOnly)])
     = [[''Breaking Changes > no-required-removal''], []]"
proof -
  have "sampleImports\<lparr> createRulesetMatcher := createRulesetMatcherSpec \<rparr> = sampleImports"
    by (simp add: sampleImports_def)
  then show ?thesis
    using getRequestRules_flatten [of sampleImports
        "[ARule OtherRule, ARuleset breakingChanges, ARule (IsRequestRule xmlOnly)]"]
    by (simp add: flattenRulesetRule_def sample_defs getRuleAliasesSpec_def)
qed

subsection \<open>C3: The name of a result\<close>

text \<open>
  Claim C3, as amended. For a rule nested inside a ruleset, every result that the runner
  pushes for the flattened rule has the rule's own name as its name; the aliases that
  \<^verbatim>\<open>getRuleAliases\<close> makes of the name of the ruleset and the name of the rule are kept in
  the field \<^verbatim>\<open>aliases\<close> of the flattened rule, which no result reads.
\<close>

theorem result_name_is_rule_name:
  "(\<forall>res \<in> set (pushed st
        (requestRuleStep I args beforeOperation afterOperation
           (rulesetRule I ruleset' rule') st)).
      Result.name res = RequestRule.name rule')
   \<and> aliases (rulesetRule I ruleset' rule')
       = getRuleAliases I (Ruleset.name ruleset') (RequestRule.name rule')"
proof -
  have "\<forall>res \<in> set (beforePassResults I args beforeOperation (rulesetRule I ruleset' rule')
            @ afterPassResults I args afterOperation (rulesetRule I ruleset' rule')).
          Result.name res = RequestRule.name rule'"
    by (rule rule_results_all)
      (simp_all add: createRequestBodyResult_def createRequestPropertyResult_def
        name_rulesetRule)
  then show ?thesis
    by (simp add: pushed_requestRuleStep aliases_rulesetRule)
qed

text \<open>
  An instance of C3 as amended: the results of the rule \<^verbatim>\<open>no-required-removal\<close> of the
  ruleset \<^verbatim>\<open>Breaking Changes\<close> carry the name of the rule; the alias is in \<open>aliases\<close>.
\<close>

theorem result_name_is_rule_name_witness:
  "list_all (\<lambda>res. Result.name res = ''no-required-removal'')
     (pushed emptyRun
        (requestRuleStep sampleImports (sampleArgs []) (Some usersOperation)
           (Some usersOperation) (rulesetRule sampleImports breakingChanges noRequiredRemoval)
           emptyRun))
   \<and> length
       (pushed emptyRun
          (requestRuleStep sampleImports (sampleArgs []) (Some usersOperation)
             (Some usersOperation)
             (rulesetRule sampleImports breakingChanges noRequiredRemoval) emptyRun)) = 4
   \<and> aliases (rulesetRule sampleImports breakingChanges noRequiredRemoval)
       = [''Breaking Changes > no-required-removal'']"
proof -
  have n: "length
       (pushed emptyRun
          (requestRuleStep sampleImports (sampleArgs []) (Some usersOperation)
             (Some usersOperation)
             (rulesetRule sampleImports breakingChanges noRequiredRemoval) emptyRun)) = 4"
    by (simp add: run_defs sample_defs)
  show ?thesis
    using n result_name_is_rule_name [where I = sampleImports and args = "sampleArgs []"
        and beforeOperation = "Some usersOperation" and afterOperation = "Some usersOperation"
        and ruleset' = breakingChanges and rule' = noRequiredRemoval and st = emptyRun]
    by (simp add: list_all_iff noRequiredRemoval_def breakingChanges_def sampleImports_def
        getRuleAliasesSpec_def)
qed

text \<open>
  Claim C3 as stated fails: the results of that rule are named \<^verbatim>\<open>no-required-removal\<close>, not
  \<^verbatim>\<open>Breaking Changes > no-required-removal\<close>.
\<close>

theorem result_name_not_aliased:
  "runRequestRules sampleImports (sampleArgs [ARuleset breakingChanges]) \<noteq> []
   \<and> set (map Result.name
         (runRequestRules sampleImports (sampleArgs [ARuleset breakingChanges])))
       = {''no-required-removal''}
   \<and> ''no-required-removal'' \<noteq> ''Breaking Changes > no-required-removal''
   \<and> map aliases (getRequestRules sampleImports [ARuleset breakingChanges])
       = [[''Breaking Changes > no-required-removal'']]"
  by (simp add: run_defs sample_defs)

subsection \<open>C4: Matcher gating\<close>

text \<open>
  Claim C4. For a rule with a matcher and any collector, whatever is registered in it: if
  the matcher returns false for the before-request of a content type in the context of the
  before pass, the before pass pushes no result for that content type; and likewise for the
  after-request in the after pass.
\<close>

theorem matcher_gating:
  assumes "RequestRule.matches requestRule = Some m"
  shows "(createRequest I (request args) contentType' Before (beforeApiSpec args)
            = Some beforeRequest
          \<and> \<not> m beforeRequest beforeRulesContext
          \<longrightarrow> results (beforeRequestStep I args requestRule requestAssertions beforeOperation
                 beforeRulesContext contentType' st) = results st)
       \<and> (createRequest I (request args) contentType' After (afterApiSpec args)
            = Some afterRequest
          \<and> \<not> m afterRequest afterRulesContext
          \<longrightarrow> results (afterRequestStep I args requestRule requestAssertions afterOperation
                 afterRulesContext contentType' st) = results st)"
  using assms
  by (auto simp: results_beforeRequestStep_rejected results_afterRequestStep_rejected
      rejects_matcher)

text \<open>
  An instance of C4: the rule of the test ``match request with content type'' accepts
  \<^verbatim>\<open>application/xml\<close> only; on the \<^verbatim>\<open>application/json\<close> body neither pass pushes a result,
  although the rule body has registered a requirement.
\<close>

theorem matcher_gating_witness:
  "results
     (beforeRequestStep sampleImports (sampleArgs []) xmlOnlyFlat
        (registered sampleImports xmlOnlyFlat usersContext) usersOperation usersContext
        ''application/json'' emptyRun) = []
   \<and> results
     (afterRequestStep sampleImports (sampleArgs []) xmlOnlyFlat
        (registered sampleImports xmlOnlyFlat usersContext) usersOperation usersContext
        ''application/json'' emptyRun) = []
   \<and> length (requirements (body (registered sampleImports xmlOnlyFlat usersContext))) = 1"
  using matcher_gating [where requestRule = xmlOnlyFlat
      and m = "\<lambda>b context. contentType b = ''application/xml''"
      and I = sampleImports and args = "sampleArgs []" and contentType' = "''application/json''"
      and beforeRequest = jsonBody and afterRequest = jsonBody
      and beforeRulesContext = usersContext and afterRulesContext = usersContext
      and requestAssertions = "registered sampleImports xmlOnlyFlat usersContext"
      and beforeOperation = usersOperation and afterOperation = usersOperation
      and st = emptyRun]
  by (simp add: sample_defs registered_def)

subsection \<open>C5: The order of the results\<close>

text \<open>
  Claim C5. The list that \<open>runRequestRules\<close> returns is, for the flattened rules in their
  order, the results of the before pass followed by the results of the after pass of each
  rule; a pass visits the content types in the order of \<^verbatim>\<open>request.bodies\<close> and, for each
  body, the body and then its properties in the order of \<^verbatim>\<open>properties\<close> (this is how
  \<open>beforePassResults\<close>, \<open>afterPassResults\<close> and the functions they use are written); the
  flattened rules are the declared request rules in declaration order.
\<close>

theorem runRequestRules_order:
  "runRequestRules I args
     = concat
         (map (\<lambda>r. beforePassResults I args
                      (createOperation I (Args.operation args) Before (beforeApiSpec args)) r
                    @ afterPassResults I args
                      (createOperation I (Args.operation args) After (afterApiSpec args)) r)
            (getRequestRules I (Args.rules args)))
   \<and> map RequestRule.name (getRequestRules I (Args.rules args))
       = concat (map declaredNames (Args.rules args))"
  by (simp add: runRequestRules_def results_runRequestRulesFrom names_getRequestRules)

text \<open>
  An instance of C5: two rules, two content types, one of them removed in the document
  after. The results of the first rule come first, its before pass (both content types, in
  order) before its after pass.
\<close>

theorem runRequestRules_order_witness:
  "map Result.name
     (runRequestRules sampleImports
        (jsonRemovedArgs [ARuleset breakingChanges, ARule (IsRequestRule xmlOnly)]))
     = [''no-required-removal'', ''no-required-removal'', ''no-required-removal'',
        ''request'', ''request'']
   \<and> map where'
     (runRequestRules sampleImports
        (jsonRemovedArgs [ARuleset breakingChanges, ARule (IsRequestRule xmlOnly)]))
     = [''requirement request with content-type: application/json in operation: GET /api/users'',
        ''requirement request with content-type: application/xml in operation: GET /api/users'',
        ''requirement request with content-type: application/xml in operation: GET /api/users'',
        ''requirement request with content-type: application/xml in operation: GET /api/users'',
        ''requirement request with content-type: application/xml in operation: GET /api/users'']"
  using runRequestRules_order [of sampleImports
      "jsonRemovedArgs [ARuleset breakingChanges, ARule (IsRequestRule xmlOnly)]"]
  by (simp add: run_defs sample_defs jsonRemovedArgs_def toUpperCase_get)

subsection \<open>C6: One result for each assertion\<close>

text \<open>
  Claim C6. The runner makes one result of every assertion result that a run method of
  the collector returns, for a body and for a property, in both passes: it filters nothing
  and stops nowhere. With the collector and the executor of the specification, the loop
  over the registrations of a kind adds one assertion result for each of them, and the
  number of results pushed for an entity in a pass is the number of registered assertions
  of the kinds that apply, whatever the predicates do. In the before pass these are the
  \<^verbatim>\<open>requirement\<close> assertions and, for a removed entity, the \<^verbatim>\<open>removed\<close> assertions; in the
  after pass the \<^verbatim>\<open>requirement\<close> assertions, for an added entity the \<^verbatim>\<open>added\<close>
  assertions and, for a changed entity with an instance before, the \<^verbatim>\<open>changed\<close>
  assertions.
\<close>

theorem one_result_per_assertion:
  "length (runEach kind change' instance' regs out) = length out + length regs
   \<and> length (pushed st (beforeBodyStep I args requestRule requestAssertions beforeOperation
       contentType' beforeRequest st))
     = length (bodyRunBefore I requestAssertions beforeRequest
         (bodyChange (request args) contentType'))
   \<and> length (pushed st (beforePropertyStep I args requestRule requestAssertions
        beforeOperation contentType' beforeRequest (key, field) st))
     = length (propertyRunBefore I requestAssertions field
         (propertyChange (request args) contentType' key))
   \<and> length (pushed st (afterBodyStep I args requestRule requestAssertions afterOperation
        contentType' maybeBeforeRequest afterRequest st))
     = length (bodyRunAfter I requestAssertions maybeBeforeRequest afterRequest
         (bodyChange (request args) contentType'))
   \<and> length (pushed st (afterPropertyStep I args requestRule requestAssertions
        afterOperation contentType' maybeBeforeRequest afterRequest (key, field) st))
     = length (propertyRunAfter I requestAssertions
         (maybeBeforeProperty maybeBeforeRequest key) field
         (propertyChange (request args) contentType' key))
   \<and> length (pushed st (beforeBodyStep (withSpecCollector I) args requestRule requestAssertions
       beforeOperation contentType' beforeRequest st))
     = length (requirements (body requestAssertions))
       + (if classification (bodyChange (request args) contentType') = Some Removed
          then length (removeds (body requestAssertions)) else 0)
   \<and> length (pushed st (beforePropertyStep (withSpecCollector I) args requestRule
        requestAssertions beforeOperation contentType' beforeRequest (key, field) st))
     = length (requirements (property requestAssertions))
       + (if classification (propertyChange (request args) contentType' key) = Some Removed
          then length (removeds (property requestAssertions)) else 0)
   \<and> length (pushed st (afterBodyStep (withSpecCollector I) args requestRule requestAssertions
        afterOperation contentType' maybeBeforeRequest afterRequest st))
     = length (requirements (body requestAssertions))
       + (if classification (bodyChange (request args) contentType') = Some Added
          then length (addeds (body requestAssertions)) else 0)
       + (if classification (bodyChange (request args) contentType') = Some Changed
            \<and> maybeBeforeRequest \<noteq> None
          then length (changeds (body requestAssertions)) else 0)
   \<and> length (pushed st (afterPropertyStep (withSpecCollector I) args requestRule
        requestAssertions afterOperation contentType' maybeBeforeRequest afterRequest
        (key, field) st))
     = length (requirements (property requestAssertions))
       + (if classification (propertyChange (request args) contentType' key) = Some Added
          then length (addeds (property requestAssertions)) else 0)
       + (if classification (propertyChange (request args) contentType' key) = Some Changed
            \<and> maybeBeforeProperty maybeBeforeRequest key \<noteq> None
          then length (changeds (property requestAssertions)) else 0)"
  by (simp add: pushed_beforeBodyStep pushed_afterBodyStep pushed_beforePropertyStep
      pushed_afterPropertyStep beforeBodyResults_def afterBodyResults_def
      beforePropertyResults_def afterPropertyResults_def withSpecCollector_def
      length_runBeforePass length_runAfterPass runEach_map)

text \<open>
  An instance of C6: two requirements are registered and the predicate of the first one
  raises; each pass pushes two results for the body.
\<close>

theorem one_result_per_assertion_witness:
  "length
     (pushed emptyRun
        (beforeBodyStep (withSpecCollector sampleImports) (sampleArgs []) xmlOnlyFlat
           twoRequirements usersOperation ''application/xml'' xmlBody emptyRun)) = 2
   \<and> length
     (pushed emptyRun
        (afterBodyStep (withSpecCollector sampleImports) (sampleArgs []) xmlOnlyFlat
           twoRequirements usersOperation ''application/xml'' (Some xmlBody) xmlBody
           emptyRun)) = 2"
  using one_result_per_assertion [where I = sampleImports and args = "sampleArgs []"
      and requestRule = xmlOnlyFlat and requestAssertions = twoRequirements
      and beforeOperation = usersOperation and afterOperation = usersOperation
      and contentType' = "''application/xml''" and beforeRequest = xmlBody
      and afterRequest = xmlBody and maybeBeforeRequest = "Some xmlBody" and st = emptyRun
      and kind = requirement and change' = None and instance' = xmlBody
      and regs = "requirements (body twoRequirements)" and out = "[]"
      and key = "''lookAtMe''" and field = lookAtMe]
  by (simp add: twoRequirements_def sample_defs bodyChange_def classification_def)

subsection \<open>C7: A failing predicate is a result\<close>

text \<open>
  Claim C7. With the collector and the executor of the specification: the loop over the
  registrations of a kind wraps each predicate invocation on its own, and the results pushed
  for an entity in a pass report, in order, one verdict for each predicate that is run. A
  predicate that returns is reported as passed, with no error; a predicate that raises, a
  structured failure or any other exception, is reported as not passed, with the message as
  the error. Each verdict depends on the outcome of its own predicate only, so a failure
  ends nothing but that predicate's invocation. The result constructors copy \<open>passed\<close> and
  \<open>error\<close> from the assertion result.
\<close>

theorem failure_is_a_result:
  "runEach kind change' instance' regs out
     = out @ map (\<lambda>reg. runAssertion kind change' (fst reg) (snd reg instance')) regs
   \<and> (AssertionResult.passed (runAssertion kind change' description outcome),
      AssertionResult.error (runAssertion kind change' description outcome))
     = verdict outcome
   \<and> map reported (pushed st (beforeBodyStep (withSpecCollector I) args requestRule
       requestAssertions beforeOperation contentType' beforeRequest st))
     = map (\<lambda>reg. verdict (snd reg beforeRequest)) (requirements (body requestAssertions))
       @ (if classification (bodyChange (request args) contentType') = Some Removed
          then map (\<lambda>reg. verdict (snd reg beforeRequest)) (removeds (body requestAssertions))
          else [])
   \<and> map reported (pushed st (beforePropertyStep (withSpecCollector I) args requestRule
        requestAssertions beforeOperation contentType' beforeRequest (key, field) st))
     = map (\<lambda>reg. verdict (snd reg field)) (requirements (property requestAssertions))
       @ (if classification (propertyChange (request args) contentType' key) = Some Removed
          then map (\<lambda>reg. verdict (snd reg field)) (removeds (property requestAssertions))
          else [])
   \<and> map reported (pushed st (afterBodyStep (withSpecCollector I) args requestRule
        requestAssertions afterOperation contentType' maybeBeforeRequest afterRequest st))
     = map (\<lambda>reg. verdict (snd reg afterRequest)) (requirements (body requestAssertions))
       @ (if classification (bodyChange (request args) contentType') = Some Added
          then map (\<lambda>reg. verdict (snd reg afterRequest)) (addeds (body requestAssertions))
          else [])
       @ (case maybeBeforeRequest of
            None \<Rightarrow> []
          | Some b \<Rightarrow>
              if classification (bodyChange (request args) contentType') = Some Changed
              then map (\<lambda>reg. verdict (snd reg b afterRequest))
                     (changeds (body requestAssertions))
              else [])
   \<and> map reported (pushed st (afterPropertyStep (withSpecCollector I) args requestRule
        requestAssertions afterOperation contentType' maybeBeforeRequest afterRequest
        (key, field) st))
     = map (\<lambda>reg. verdict (snd reg field)) (requirements (property requestAssertions))
       @ (if classification (propertyChange (request args) contentType' key) = Some Added
          then map (\<lambda>reg. verdict (snd reg field)) (addeds (property requestAssertions))
          else [])
       @ (case maybeBeforeProperty maybeBeforeRequest key of
            None \<Rightarrow> []
          | Some p \<Rightarrow>
              if classification (propertyChange (request args) contentType' key) = Some Changed
              then map (\<lambda>reg. verdict (snd reg p field))
                     (changeds (property requestAssertions))
              else [])
   \<and> verdict Returns = (True, None)
   \<and> verdict (Raises (RuleError msg)) = (False, Some msg)
   \<and> verdict (Raises (Exception msg)) = (False, Some msg)
   \<and> Result.passed (createRequestBodyResult I assertionResult beforeRequest beforeOperation
        requestRule) = AssertionResult.passed assertionResult
   \<and> Result.error (createRequestBodyResult I assertionResult beforeRequest beforeOperation
        requestRule) = AssertionResult.error assertionResult
   \<and> Result.passed (createRequestPropertyResult I assertionResult field beforeRequest
        beforeOperation requestRule) = AssertionResult.passed assertionResult
   \<and> Result.error (createRequestPropertyResult I assertionResult field beforeRequest
        beforeOperation requestRule) = AssertionResult.error assertionResult"
proof -
  have 1: "map reported (pushed st (beforeBodyStep (withSpecCollector I) args requestRule
       requestAssertions beforeOperation contentType' beforeRequest st))
     = map (\<lambda>reg. verdict (snd reg beforeRequest)) (requirements (body requestAssertions))
       @ (if classification (bodyChange (request args) contentType') = Some Removed
          then map (\<lambda>reg. verdict (snd reg beforeRequest)) (removeds (body requestAssertions))
          else [])"
    by (simp add: pushed_beforeBodyStep beforeBodyResults_def withSpecCollector_def
        runBeforePass_map comp_def reported_body)
  have 2: "map reported (pushed st (beforePropertyStep (withSpecCollector I) args requestRule
        requestAssertions beforeOperation contentType' beforeRequest (key, field) st))
     = map (\<lambda>reg. verdict (snd reg field)) (requirements (property requestAssertions))
       @ (if classification (propertyChange (request args) contentType' key) = Some Removed
          then map (\<lambda>reg. verdict (snd reg field)) (removeds (property requestAssertions))
          else [])"
    by (simp add: pushed_beforePropertyStep beforePropertyResults_def withSpecCollector_def
        runBeforePass_map comp_def reported_property)
  have 3: "map reported (pushed st (afterBodyStep (withSpecCollector I) args requestRule
        requestAssertions afterOperation contentType' maybeBeforeRequest afterRequest st))
     = map (\<lambda>reg. verdict (snd reg afterRequest)) (requirements (body requestAssertions))
       @ (if classification (bodyChange (request args) contentType') = Some Added
          then map (\<lambda>reg. verdict (snd reg afterRequest)) (addeds (body requestAssertions))
          else [])
       @ (case maybeBeforeRequest of
            None \<Rightarrow> []
          | Some b \<Rightarrow>
              if classification (bodyChange (request args) contentType') = Some Changed
              then map (\<lambda>reg. verdict (snd reg b afterRequest))
                     (changeds (body requestAssertions))
              else [])"
    by (simp add: pushed_afterBodyStep afterBodyResults_def withSpecCollector_def
        runAfterPass_map comp_def reported_body split: option.splits)
  have 4: "map reported (pushed st (afterPropertyStep (withSpecCollector I) args requestRule
        requestAssertions afterOperation contentType' maybeBeforeRequest afterRequest
        (key, field) st))
     = map (\<lambda>reg. verdict (snd reg field)) (requirements (property requestAssertions))
       @ (if classification (propertyChange (request args) contentType' key) = Some Added
          then map (\<lambda>reg. verdict (snd reg field)) (addeds (property requestAssertions))
          else [])
       @ (case maybeBeforeProperty maybeBeforeRequest key of
            None \<Rightarrow> []
          | Some p \<Rightarrow>
              if classification (propertyChange (request args) contentType' key) = Some Changed
              then map (\<lambda>reg. verdict (snd reg p field))
                     (changeds (property requestAssertions))
              else [])"
    by (simp add: pushed_afterPropertyStep afterPropertyResults_def withSpecCollector_def
        runAfterPass_map comp_def reported_property split: option.splits)
  have 5: "Result.passed (createRequestBodyResult I assertionResult beforeRequest
        beforeOperation requestRule) = AssertionResult.passed assertionResult"
    "Result.error (createRequestBodyResult I assertionResult beforeRequest beforeOperation
        requestRule) = AssertionResult.error assertionResult"
    "Result.passed (createRequestPropertyResult I assertionResult field beforeRequest
        beforeOperation requestRule) = AssertionResult.passed assertionResult"
    "Result.error (createRequestPropertyResult I assertionResult field beforeRequest
        beforeOperation requestRule) = AssertionResult.error assertionResult"
    by (simp_all add: createRequestBodyResult_def createRequestPropertyResult_def)
  show ?thesis
    using 1 2 3 4 5 by (simp add: runEach_map verdict_runAssertion)
qed

text \<open>
  An instance of C7: the failure of the first predicate is reported with its message, and
  the second predicate is still run and reported as passed.
\<close>

theorem failure_is_a_result_witness:
  "map reported
     (pushed emptyRun
        (beforeBodyStep (withSpecCollector sampleImports) (sampleArgs []) xmlOnlyFlat
           twoRequirements usersOperation ''application/xml'' xmlBody emptyRun))
     = [(False, Some ''request body does not have `type`''), (True, None)]"
  using failure_is_a_result [where I = sampleImports and args = "sampleArgs []"
      and requestRule = xmlOnlyFlat and requestAssertions = twoRequirements
      and beforeOperation = usersOperation and afterOperation = usersOperation
      and contentType' = "''application/xml''" and beforeRequest = xmlBody
      and afterRequest = xmlBody and maybeBeforeRequest = "Some xmlBody" and st = emptyRun
      and kind = requirement and change' = None and instance' = xmlBody
      and regs = "requirements (body twoRequirements)" and out = "[]"
      and description = "''must contain a type''"
      and outcome = "Raises (RuleError ''request body does not have `type`'')"
      and key = "''lookAtMe''" and field = lookAtMe and msg = "''no type''"
      and assertionResult = "runAssertion requirement None ''has a schema'' Returns"]
  by (simp add: twoRequirements_def sample_defs bodyChange_def classification_def)

subsection \<open>C8: The severity flags\<close>

text \<open>
  Claim C8. A request rule has the fields \<^verbatim>\<open>name\<close>, \<^verbatim>\<open>docsLink\<close>, \<^verbatim>\<open>matches\<close> and
  \<^verbatim>\<open>rule\<close>: it declares no severity tier, so its tier is the default, ``must''. Every
  result of \<open>runRequestRules\<close> has the flags of that tier, \<open>isMust\<close> true and \<open>isShould\<close>
  false, which the two result constructors write; the flags are never both true.
\<close>

theorem results_always_must:
  "\<forall>res \<in> set (runRequestRules I args). isMust res \<and> \<not> isShould res"
proof -
  have "\<forall>res \<in> set (beforePassResults I args bo r @ afterPassResults I args ao r).
          isMust res \<and> \<not> isShould res" for bo ao r
    by (rule rule_results_all)
      (simp_all add: createRequestBodyResult_def createRequestPropertyResult_def)
  then show ?thesis
    by (auto simp: runRequestRules_def results_runRequestRulesFrom)
qed

text \<open>
  An instance of C8, on the results of the sample run.
\<close>

theorem results_always_must_witness:
  "list_all (\<lambda>res. isMust res \<and> \<not> isShould res)
     (runRequestRules sampleImports (sampleArgs [ARuleset breakingChanges]))
   \<and> length (runRequestRules sampleImports (sampleArgs [ARuleset breakingChanges])) = 4"
proof -
  have n: "length (runRequestRules sampleImports (sampleArgs [ARuleset breakingChanges])) = 4"
    by (simp add: run_defs sample_defs)
  show ?thesis
    using n results_always_must [of sampleImports "sampleArgs [ARuleset breakingChanges]"]
    by (simp add: list_all_iff)
qed

subsection \<open>C9: Resolution warnings\<close>

text \<open>
  Claim C9. When checks are enabled and the two collaborators answer, \<open>generateRuleRunner\<close>
  returns the runner built from every ruleset that \<^verbatim>\<open>prepareRulesets\<close> resolved, whatever
  warnings it reports, and writes every warning, in order, to the error output: the
  warnings stop nothing and none is dropped.
\<close>

theorem warnings_are_printed:
  assumes "getManyRulesetsByName E (rulesToFetchOf E config') = Inr response"
    and "prepareRulesets E (payloadOf E config' response) = Inr results'"
  shows "generateRuleRunner E config' True console
           = Inr (RuleRunner (Prepared.rulesets results'), console @ warnings results')"
  using assms by (simp add: generateRuleRunner_def printWarnings_append)

text \<open>
  An instance of C9: of three configured rulesets the registry knows none, two resolve and
  one warning is reported; the runner gets the two and the warning is printed.
\<close>

theorem warnings_are_printed_witness:
  "generateRuleRunner sampleCli sampleConfig True []
     = Inr (RuleRunner [''breaking-changes'', ''./local.js''],
            [''unresolved: @org/unknown''])"
proof -
  have fetch: "rulesToFetchOf sampleCli sampleConfig = [''@org/unknown'']"
    by (simp add: rulesToFetchOf_def sampleCli_def sampleConfig_def sortRuleset_def
        isLocalJsFile_def endsWith_def)
  have response: "getManyRulesetsByName sampleCli (rulesToFetchOf sampleCli sampleConfig)
      = Inr \<lparr> Response.rulesets = [None] \<rparr>"
    by (simp add: fetch) (simp add: sampleCli_def)
  have prepared: "prepareRulesets sampleCli
        (payloadOf sampleCli sampleConfig \<lparr> Response.rulesets = [None] \<rparr>)
      = Inr \<lparr> Prepared.rulesets = [''breaking-changes'', ''./local.js''],
              warnings = [''unresolved: @org/unknown''] \<rparr>"
    by (simp add: payloadOf_def sampleCli_def sampleConfig_def sortRuleset_def
        isLocalJsFile_def endsWith_def addHosted_def sampleResolves_def)
  show ?thesis
    using warnings_are_printed [OF response prepared, of "[]"] by simp
qed

subsection \<open>C10: The matcher is for bodies only\<close>

text \<open>
  Claim C10. The matcher of a rule is a function of a request body and is called on the
  before-request or after-request of a content type only: the calls of the properties of a
  body are run calls, never matcher calls. When the rule does not accept the body (its
  matcher returns false), the pass pushes nothing for that content type and calls nothing
  but the matcher: no assertion is run on the body or on a property. When the rule accepts
  the body, the pass pushes the results of the body and then of every property, and after
  the matcher call on the body come the run call of the body and one run call for each
  property, with no matcher call between them.
\<close>

theorem matcher_on_bodies_only:
  "(createRequest I (request args) contentType' Before (beforeApiSpec args) = Some beforeRequest
      \<longrightarrow>
      (\<not> accepts requestRule beforeRequest beforeRulesContext \<longrightarrow>
         pushed st (beforeRequestStep I args requestRule requestAssertions beforeOperation
           beforeRulesContext contentType' st) = []
         \<and> calls (beforeRequestStep I args requestRule requestAssertions beforeOperation
             beforeRulesContext contentType' st)
           = calls st @ [Matches beforeRequest beforeRulesContext])
      \<and> (accepts requestRule beforeRequest beforeRulesContext \<longrightarrow>
         pushed st (beforeRequestStep I args requestRule requestAssertions beforeOperation
           beforeRulesContext contentType' st)
           = beforeBodyResults I args requestRule requestAssertions beforeOperation
               contentType' beforeRequest
             @ concat
                 (map (beforePropertyResults I args requestRule requestAssertions
                         beforeOperation contentType' beforeRequest)
                    (properties beforeRequest))
         \<and> calls (beforeRequestStep I args requestRule requestAssertions beforeOperation
             beforeRulesContext contentType' st)
           = calls st @ matcherCalls requestRule beforeRequest beforeRulesContext
             @ BodyRunBefore requestAssertions beforeRequest
                 (bodyChange (request args) contentType')
               # map (beforePropertyCall args requestAssertions contentType')
                   (properties beforeRequest)))
   \<and> (createRequest I (request args) contentType' After (afterApiSpec args) = Some afterRequest
      \<longrightarrow>
      (\<not> accepts requestRule afterRequest afterRulesContext \<longrightarrow>
         pushed st (afterRequestStep I args requestRule requestAssertions afterOperation
           afterRulesContext contentType' st) = []
         \<and> calls (afterRequestStep I args requestRule requestAssertions afterOperation
             afterRulesContext contentType' st)
           = calls st @ [Matches afterRequest afterRulesContext])
      \<and> (accepts requestRule afterRequest afterRulesContext \<longrightarrow>
         pushed st (afterRequestStep I args requestRule requestAssertions afterOperation
           afterRulesContext contentType' st)
           = afterBodyResults I args requestRule requestAssertions afterOperation contentType'
               (createRequest I (request args) contentType' Before (beforeApiSpec args))
               afterRequest
             @ concat
                 (map (afterPropertyResults I args requestRule requestAssertions
                         afterOperation contentType'
                         (createRequest I (request args) contentType' Before
                            (beforeApiSpec args))
                         afterRequest)
                    (properties afterRequest))
         \<and> calls (afterRequestStep I args requestRule requestAssertions afterOperation
             afterRulesContext contentType' st)
           = calls st @ matcherCalls requestRule afterRequest afterRulesContext
             @ BodyRunAfter requestAssertions
                 (createRequest I (request args) contentType' Before (beforeApiSpec args))
                 afterRequest (bodyChange (request args) contentType')
               # map (afterPropertyCall args requestAssertions contentType'
                        (createRequest I (request args) contentType' Before
                           (beforeApiSpec args)))
                   (properties afterRequest)))
   \<and> filter isMatches
         (map (beforePropertyCall args requestAssertions contentType') properties') = []
   \<and> filter isMatches
         (map (afterPropertyCall args requestAssertions contentType' maybeBeforeRequest)
            properties') = []"
  using before_rejected [of I args contentType' beforeRequest requestRule beforeRulesContext]
    before_accepted [of I args contentType' beforeRequest requestRule beforeRulesContext]
    after_rejected [of I args contentType' afterRequest requestRule afterRulesContext]
    after_accepted [of I args contentType' afterRequest requestRule afterRulesContext]
  by (simp add: isMatches_beforePropertyCalls isMatches_afterPropertyCalls)

text \<open>
  An instance of C10, with the rule that accepts \<^verbatim>\<open>application/xml\<close> only: on the
  rejected body the matcher is the only call; on the accepted body the run call follows
  the matcher call.
\<close>

theorem matcher_on_bodies_only_witness:
  "pushed emptyRun
     (beforeRequestStep sampleImports (sampleArgs []) xmlOnlyFlat
        (registered sampleImports xmlOnlyFlat usersContext) usersOperation usersContext
        ''application/json'' emptyRun) = []
   \<and> calls
     (beforeRequestStep sampleImports (sampleArgs []) xmlOnlyFlat
        (registered sampleImports xmlOnlyFlat usersContext) usersOperation usersContext
        ''application/json'' emptyRun) = [Matches jsonBody usersContext]
   \<and> calls
     (afterRequestStep sampleImports (sampleArgs []) xmlOnlyFlat
        (registered sampleImports xmlOnlyFlat usersContext) usersOperation usersContext
        ''application/json'' emptyRun) = [Matches jsonBody usersContext]
   \<and> calls
     (beforeRequestStep sampleImports (sampleArgs []) xmlOnlyFlat
        (registered sampleImports xmlOnlyFlat usersContext) usersOperation usersContext
        ''application/xml'' emptyRun)
     = [Matches xmlBody usersContext,
        BodyRunBefore (registered sampleImports xmlOnlyFlat usersContext) xmlBody None]
   \<and> calls
     (afterRequestStep sampleImports (sampleArgs []) xmlOnlyFlat
        (registered sampleImports xmlOnlyFlat usersContext) usersOperation usersContext
        ''application/xml'' emptyRun)
     = [Matches xmlBody usersContext,
        BodyRunAfter (registered sampleImports xmlOnlyFlat usersContext) (Some xmlBody)
          xmlBody None]"
  using matcher_on_bodies_only [where requestRule = xmlOnlyFlat
      and I = sampleImports and args = "sampleArgs []" and contentType' = "''application/json''"
      and beforeRequest = jsonBody and afterRequest = jsonBody
      and beforeRulesContext = usersContext and afterRulesContext = usersContext
      and requestAssertions = "registered sampleImports xmlOnlyFlat usersContext"
      and beforeOperation = usersOperation and afterOperation = usersOperation
      and st = emptyRun]
    matcher_on_bodies_only [where requestRule = xmlOnlyFlat
      and I = sampleImports and args = "sampleArgs []" and contentType' = "''application/xml''"
      and beforeRequest = xmlBody and afterRequest = xmlBody
      and beforeRulesContext = usersContext and afterRulesContext = usersContext
      and requestAssertions = "registered sampleImports xmlOnlyFlat usersContext"
      and beforeOperation = usersOperation and afterOperation = usersOperation
      and st = emptyRun]
  by (simp add: sample_defs registered_def accepts_def matcherCalls_def bodyChange_def)

end
